theory Spec2Isabelle
  imports Complex_Main "HOL-Library.AList"
begin

section \<open>JavaScript values as the edge functions see them\<close>

text \<open>
  The three edge functions (\<^verbatim>\<open>verify-content\<close>, \<^verbatim>\<open>verify-citations\<close>,
  \<^verbatim>\<open>detect-ai\<close>) read request and upstream bodies with \<^verbatim>\<open>json()\<close> and treat
  them as \<^verbatim>\<open>any\<close>. A parsed body is a value of \<open>json\<close>; \<^verbatim>\<open>undefined\<close> (an absent
  property) is \<open>None\<close> of \<open>json option\<close>. An object is an association list in key order,
  the first entry of a key being the one a property read finds.

  A string is a \<open>string\<close> whose characters are the UTF-16 code units below 256 (the
  Latin-1 range); \<^verbatim>\<open>toLowerCase\<close> and the white space of \<^verbatim>\<open>trim\<close> and \<^verbatim>\<open>\s\<close>
  are the engine's on that range. Code units from 256 on are not representable. Numbers
  are rationals: the code only tests a number for being zero and copies it.
\<close>

datatype json =
    JNull
  | JBool bool
  | JNum rat
  | JStr string
  | JArr "json list"
  | JObj "(string \<times> json) list"

text \<open>
  What a \<^verbatim>\<open>throw\<close> carries. \<open>TypeError\<close> is the engine's error for a property read
  on \<^verbatim>\<open>null\<close>/\<^verbatim>\<open>undefined\<close> or a call of a missing method; \<open>SyntaxError m\<close> is
  \<^verbatim>\<open>JSON.parse\<close>'s; \<open>FetchError m\<close> is a rejected \<^verbatim>\<open>fetch\<close> or body read with
  message \<open>m\<close>; \<open>Error m\<close> is \<^verbatim>\<open>new Error(m)\<close>.
\<close>

datatype js_error = TypeError | SyntaxError string | FetchError string | Error string

text \<open>
  \<^verbatim>\<open>error.message\<close>. The engine's wording of a \<open>TypeError\<close> is not modelled: the
  text below stands for it.
\<close>

fun message :: "js_error \<Rightarrow> string" where
  "message TypeError = ''TypeError''"
| "message (SyntaxError m) = m"
| "message (FetchError m) = m"
| "message (Error m) = m"

definition bind_result :: "js_error + 'a \<Rightarrow> ('a \<Rightarrow> js_error + 'b) \<Rightarrow> js_error + 'b" where
  "bind_result r f = (case r of Inl e \<Rightarrow> Inl e | Inr x \<Rightarrow> f x)"

fun map_result :: "('a \<Rightarrow> js_error + 'b) \<Rightarrow> 'a list \<Rightarrow> js_error + 'b list" where
  "map_result f [] = Inr []"
| "map_result f (x # xs) =
     bind_result (f x) (\<lambda>y. bind_result (map_result f xs) (\<lambda>ys. Inr (y # ys)))"

text \<open>Truthiness: \<^verbatim>\<open>undefined\<close>, \<^verbatim>\<open>null\<close>, \<^verbatim>\<open>false\<close>, \<^verbatim>\<open>0\<close> and \<^verbatim>\<open>""\<close> are falsy.\<close>

fun truthy :: "json option \<Rightarrow> bool" where
  "truthy None = False"
| "truthy (Some JNull) = False"
| "truthy (Some (JBool b)) = b"
| "truthy (Some (JNum n)) = (n \<noteq> 0)"
| "truthy (Some (JStr s)) = (s \<noteq> [])"
| "truthy (Some (JArr xs)) = True"
| "truthy (Some (JObj kvs)) = True"

definition js_or :: "json option \<Rightarrow> json option \<Rightarrow> json option" where
  "js_or a b = (if truthy a then a else b)"

fun nullish :: "json option \<Rightarrow> bool" where
  "nullish None = True"
| "nullish (Some JNull) = True"
| "nullish (Some v) = False"

definition js_coalesce :: "json option \<Rightarrow> json option \<Rightarrow> json option" where
  "js_coalesce a b = (if nullish a then b else a)"

text \<open>
  \<^verbatim>\<open>v.k\<close> for the keys the code reads (none of them is a built-in property of a
  string, number, boolean or array): a \<open>TypeError\<close> on \<^verbatim>\<open>null\<close>/\<^verbatim>\<open>undefined\<close>, the
  entry of an object, \<^verbatim>\<open>undefined\<close> on anything else.
\<close>

fun get_prop :: "json option \<Rightarrow> string \<Rightarrow> js_error + json option" where
  "get_prop None k = Inl TypeError"
| "get_prop (Some JNull) k = Inl TypeError"
| "get_prop (Some (JObj kvs)) k = Inr (map_of kvs k)"
| "get_prop (Some v) k = Inr None"

text \<open>\<^verbatim>\<open>v?.k\<close>: \<^verbatim>\<open>undefined\<close> where \<^verbatim>\<open>v.k\<close> would throw.\<close>

fun opt_prop :: "json option \<Rightarrow> string \<Rightarrow> json option" where
  "opt_prop (Some (JObj kvs)) k = map_of kvs k"
| "opt_prop v k = None"

section \<open>String primitives\<close>

text \<open>
  \<^verbatim>\<open>toLowerCase\<close> on one code unit: A--Z, and the Latin-1 capitals U+00C0--U+00DE
  except the multiplication sign U+00D7, move up by 32; every other code unit stays.
\<close>

definition toLowerChar :: "char \<Rightarrow> char" where
  "toLowerChar c =
     (let n = (of_char c :: nat) in
      if (65 \<le> n \<and> n \<le> 90) \<or> (192 \<le> n \<and> n \<le> 222 \<and> n \<noteq> 215)
      then char_of (n + 32) else c)"

definition toLowerCase :: "string \<Rightarrow> string" where
  "toLowerCase s = map toLowerChar s"

definition startsWith :: "string \<Rightarrow> string \<Rightarrow> bool" where
  "startsWith s p = (take (length p) s = p)"

fun js_includes :: "string \<Rightarrow> string \<Rightarrow> bool" where
  "js_includes [] t = (t = [])"
| "js_includes (c # cs) t = (startsWith (c # cs) t \<or> js_includes cs t)"

text \<open>\<^verbatim>\<open>s.substring(0, n)\<close>\<close>

definition substring0 :: "nat \<Rightarrow> string \<Rightarrow> string" where
  "substring0 n s = take n s"

text \<open>A method of \<^verbatim>\<open>String.prototype\<close> called on a value: a \<open>TypeError\<close> unless it is a string.\<close>

fun as_string :: "json option \<Rightarrow> js_error + string" where
  "as_string (Some (JStr s)) = Inr s"
| "as_string v = Inl TypeError"

text \<open>White space of \<^verbatim>\<open>trim\<close> and of \<^verbatim>\<open>\s\<close>: tab, line feed, vertical tab, form feed,
  carriage return, space and the no-break space U+00A0.\<close>

definition isSpace :: "char \<Rightarrow> bool" where
  "isSpace c =
     (let n = (of_char c :: nat) in (9 \<le> n \<and> n \<le> 13) \<or> n = 32 \<or> n = 160)"

definition trim :: "string \<Rightarrow> string" where
  "trim s = rev (dropWhile isSpace (rev (dropWhile isSpace s)))"

text \<open>A template literal prints a status code in decimal.\<close>

definition digit_char :: "nat \<Rightarrow> char" where
  "digit_char d = char_of (48 + d)"

function show_nat :: "nat \<Rightarrow> string" where
  "show_nat n = (if n < 10 then [digit_char n] else show_nat (n div 10) @ [digit_char (n mod 10)])"
  by pat_completeness auto
termination
  by (relation "measure id") auto

declare show_nat.simps [simp del]

text \<open>
  The fence pattern \<^verbatim>\<open>/```(?:json)?\s*([\s\S]*?)```/\<close> of both AI handlers.
  \<open>split_fence s\<close> cuts \<open>s\<close> at the first run of three backticks. The match starts at
  the first such run, skips an optional \<^verbatim>\<open>json\<close> and white space (neither holds a
  backtick, so backtracking finds nothing more), and its group ends at the next run; if
  there is no closing run, no later start matches either and the whole content is used
  (\<^verbatim>\<open>|| [null, content]\<close>).
\<close>

definition fence :: string where
  "fence = [CHR 0x60, CHR 0x60, CHR 0x60]"

fun split_fence :: "string \<Rightarrow> (string \<times> string) option" where
  "split_fence [] = None"
| "split_fence (c # cs) =
     (if startsWith (c # cs) fence then Some ([], drop 3 (c # cs))
      else (case split_fence cs of None \<Rightarrow> None | Some (a, b) \<Rightarrow> Some (c # a, b)))"

definition fenced_group :: "string \<Rightarrow> string" where
  "fenced_group content =
     (case split_fence content of
        None \<Rightarrow> content
      | Some (before, rest) \<Rightarrow>
          (let rest1 = (if startsWith rest ''json'' then drop 4 rest else rest);
               rest2 = dropWhile isSpace rest1
           in case split_fence rest2 of
                None \<Rightarrow> content
              | Some (grp, after) \<Rightarrow> grp))"

text \<open>
  Lines 121--123 of verify-content and 104--106 of detect-ai: the three statements of the
  inner \<^verbatim>\<open>try\<close>. \<^verbatim>\<open>content.match\<close> is a \<open>TypeError\<close> on a value that is not a
  string. \<open>JSON_parse\<close> is the engine's \<^verbatim>\<open>JSON.parse\<close>, a parameter of the model.
\<close>

definition parse_ai_content ::
  "(string \<Rightarrow> js_error + json) \<Rightarrow> json option \<Rightarrow> js_error + json" where
  "parse_ai_content JSON_parse content =
     bind_result (as_string content) (\<lambda>c. JSON_parse (trim (fenced_group c)))"

text \<open>\<^verbatim>\<open>v?.[0]\<close>: the first element of an array, the first character of a string, the
  entry \<^verbatim>\<open>"0"\<close> of an object, \<^verbatim>\<open>undefined\<close> otherwise.\<close>

fun opt_index0 :: "json option \<Rightarrow> json option" where
  "opt_index0 (Some (JArr (x # xs))) = Some x"
| "opt_index0 (Some (JStr (c # cs))) = Some (JStr [c])"
| "opt_index0 (Some (JObj kvs)) = map_of kvs ''0''"
| "opt_index0 v = None"

text \<open>\<^verbatim>\<open>a || d\<close> with a default \<open>d\<close> that is a value.\<close>

fun or_default :: "json option \<Rightarrow> json \<Rightarrow> json" where
  "or_default None d = d"
| "or_default (Some v) d = (if truthy (Some v) then v else d)"

text \<open>\<^verbatim>\<open>a ?? d\<close> with a default \<open>d\<close> that is a value.\<close>

fun coalesce_default :: "json option \<Rightarrow> json \<Rightarrow> json" where
  "coalesce_default None d = d"
| "coalesce_default (Some JNull) d = d"
| "coalesce_default (Some v) d = v"

text \<open>\<^verbatim>\<open>a || o.k\<close>: the property is read only when \<open>a\<close> is falsy.\<close>

definition or_prop :: "json option \<Rightarrow> json option \<Rightarrow> string \<Rightarrow> js_error + json option" where
  "or_prop a obj k = (if truthy a then Inr a else get_prop obj k)"

section \<open>HTTP exchanges\<close>

text \<open>
  A \<^verbatim>\<open>fetch\<close> either rejects (\<open>Inl\<close>) or resolves to a response with a status code
  and a body whose read (\<^verbatim>\<open>text()\<close>, \<^verbatim>\<open>json()\<close>) may itself reject.
\<close>

datatype http_response = HttpResponse (resp_status: nat) (resp_text: "js_error + string")

definition resp_ok :: "http_response \<Rightarrow> bool" where
  "resp_ok r = (200 \<le> resp_status r \<and> resp_status r \<le> 299)"

definition resp_json :: "(string \<Rightarrow> js_error + json) \<Rightarrow> http_response \<Rightarrow> js_error + json" where
  "resp_json JSON_parse r = bind_result (resp_text r) JSON_parse"

text \<open>What a handler returns: the reply to a preflight, or a status code with a JSON body.\<close>

datatype response = Preflight | Json nat json

definition error_body :: "string \<Rightarrow> json" where
  "error_body m = JObj [(''error'', JStr m)]"

section \<open>Status Normalizer (verify-content)\<close>

datatype claim_status = ClaimVerified | ClaimQuestionable | ClaimFalse

datatype citation_status = CitationValid | CitationBroken | CitationFake

fun claim_status_str :: "claim_status \<Rightarrow> string" where
  "claim_status_str ClaimVerified = ''verified''"
| "claim_status_str ClaimQuestionable = ''questionable''"
| "claim_status_str ClaimFalse = ''false''"

fun citation_status_str :: "citation_status \<Rightarrow> string" where
  "citation_status_str CitationValid = ''valid''"
| "citation_status_str CitationBroken = ''broken''"
| "citation_status_str CitationFake = ''fake''"

definition normalizeClaimStatus :: "json option \<Rightarrow> js_error + claim_status" where
  "normalizeClaimStatus status =
     (if \<not> truthy status then Inr ClaimQuestionable
      else bind_result (as_string status) (\<lambda>str.
        let s = toLowerCase str in
        if js_includes s ''true'' \<or> js_includes s ''verified'' \<or> js_includes s ''accurate''
           \<or> js_includes s ''correct''
        then Inr ClaimVerified
        else if js_includes s ''false'' \<or> js_includes s ''incorrect'' \<or> js_includes s ''wrong''
           \<or> js_includes s ''fake''
        then Inr ClaimFalse
        else Inr ClaimQuestionable))"

definition normalizeCitationStatus :: "json option \<Rightarrow> js_error + citation_status" where
  "normalizeCitationStatus status =
     (if \<not> truthy status then Inr CitationBroken
      else bind_result (as_string status) (\<lambda>str.
        let s = toLowerCase str in
        if js_includes s ''valid'' \<or> js_includes s ''exists'' \<or> js_includes s ''found''
           \<or> js_includes s ''working''
        then Inr CitationValid
        else if js_includes s ''fake'' \<or> js_includes s ''fabricated'' \<or> js_includes s ''nonexistent''
           \<or> js_includes s ''false''
        then Inr CitationFake
        else Inr CitationBroken))"

section \<open>Result Merger (verify-content)\<close>

text \<open>
  Lines 144--146: the callback of \<^verbatim>\<open>find\<close>. \<open>claim\<close> is the backend's raw claim and
  \<open>s\<close> an entry of the AI result's \<^verbatim>\<open>sourceSuggestions\<close>.
\<close>

definition suggestionMatches :: "json \<Rightarrow> json \<Rightarrow> js_error + bool" where
  "suggestionMatches claim s =
     bind_result (get_prop (Some claim) ''text'') (\<lambda>ct.
       if \<not> truthy ct then Inr False
       else bind_result (get_prop (Some s) ''claimText'') (\<lambda>st.
         if \<not> truthy st then Inr False
         else bind_result (as_string ct) (\<lambda>ctext.
              bind_result (as_string st) (\<lambda>stext.
                Inr (js_includes (toLowerCase ctext) (substring0 30 (toLowerCase stext))
                     \<or> js_includes (toLowerCase stext) (substring0 30 (toLowerCase ctext)))))))"

text \<open>\<^verbatim>\<open>Array.prototype.find\<close> with that callback: the first entry it accepts.\<close>

fun findSuggestion :: "json \<Rightarrow> json list \<Rightarrow> js_error + json option" where
  "findSuggestion claim [] = Inr None"
| "findSuggestion claim (s # ss) =
     bind_result (suggestionMatches claim s) (\<lambda>b.
       if b then Inr (Some s) else findSuggestion claim ss)"

text \<open>
  Lines 143--147, \<^verbatim>\<open>aiResult?.sourceSuggestions?.find(...)\<close>: \<^verbatim>\<open>undefined\<close> when the
  list is \<^verbatim>\<open>null\<close> or absent, a \<open>TypeError\<close> when it is anything but an array.
\<close>

definition aiSuggestionFor :: "json \<Rightarrow> json \<Rightarrow> js_error + json option" where
  "aiSuggestionFor aiResult claim =
     (let ss = opt_prop (Some aiResult) ''sourceSuggestions'' in
      if nullish ss then Inr None
      else (case ss of Some (JArr xs) \<Rightarrow> findSuggestion claim xs | _ \<Rightarrow> Inl TypeError))"

text \<open>Lines 141--155: the callback that normalizes one backend claim.\<close>

definition mergeClaim :: "json \<Rightarrow> json \<Rightarrow> js_error + json" where
  "mergeClaim aiResult claim =
     bind_result (aiSuggestionFor aiResult claim) (\<lambda>aiSuggestion.
     bind_result (get_prop (Some claim) ''text'') (\<lambda>t1.
     bind_result (or_prop t1 (Some claim) ''claim'') (\<lambda>t2.
     bind_result (get_prop (Some claim) ''status'') (\<lambda>s1.
     bind_result (or_prop s1 (Some claim) ''verdict'') (\<lambda>s2.
     bind_result (or_prop s2 (Some claim) ''verification_status'') (\<lambda>s3.
     bind_result (normalizeClaimStatus s3) (\<lambda>st.
     bind_result (get_prop (Some claim) ''note'') (\<lambda>n1.
     bind_result (or_prop n1 (Some claim) ''explanation'') (\<lambda>n2.
     bind_result (or_prop n2 (Some claim) ''reason'') (\<lambda>n3.
     bind_result (or_prop (opt_prop aiSuggestion ''suggestedSources'') (Some claim)
                    ''suggestedSources'') (\<lambda>src.
       Inr (JObj [(''text'', or_default t2 (JStr [])),
                  (''status'', JStr (claim_status_str st)),
                  (''note'', or_default n3 (JStr [])),
                  (''suggestedSources'', or_default src (JArr []))]))))))))))))"

text \<open>Lines 157--162: the callback that normalizes one backend citation.\<close>

definition mergeCitation :: "json \<Rightarrow> js_error + json" where
  "mergeCitation citation =
     bind_result (get_prop (Some citation) ''source'') (\<lambda>a1.
     bind_result (or_prop a1 (Some citation) ''name'') (\<lambda>a2.
     bind_result (get_prop (Some citation) ''url'') (\<lambda>u.
     bind_result (get_prop (Some citation) ''status'') (\<lambda>s1.
     bind_result (or_prop s1 (Some citation) ''validity'') (\<lambda>s2.
     bind_result (normalizeCitationStatus s2) (\<lambda>st.
     bind_result (get_prop (Some citation) ''reason'') (\<lambda>r1.
     bind_result (or_prop r1 (Some citation) ''explanation'') (\<lambda>r2.
       Inr (JObj [(''source'', or_default a2 (JStr [])),
                  (''url'', or_default u (JStr ''unknown'')),
                  (''status'', JStr (citation_status_str st)),
                  (''reason'', or_default r2 (JStr []))])))))))))"

text \<open>\<^verbatim>\<open>(v || []).map(f)\<close>: a \<open>TypeError\<close> when \<open>v\<close> is truthy and not an array.\<close>

definition map_array :: "(json \<Rightarrow> js_error + json) \<Rightarrow> json option \<Rightarrow> js_error + json list" where
  "map_array f v =
     (case or_default v (JArr []) of JArr xs \<Rightarrow> map_result f xs | _ \<Rightarrow> Inl TypeError)"

text \<open>
  Step 3, lines 134--187. \<open>backendResult\<close> and \<open>aiResult\<close> are \<^verbatim>\<open>null\<close> (\<open>JNull\<close>)
  when their call failed; \<open>backendError\<close> is \<^verbatim>\<open>null\<close> (\<open>None\<close>) or the recorded
  message.
\<close>

definition mergeResults :: "json \<Rightarrow> string option \<Rightarrow> json \<Rightarrow> js_error + json" where
  "mergeResults backendResult backendError aiResult =
     (if truthy (Some backendResult) then
        bind_result (map_array (mergeClaim aiResult) (opt_prop (Some backendResult) ''claims''))
          (\<lambda>claims.
        bind_result (map_array mergeCitation (opt_prop (Some backendResult) ''citations''))
          (\<lambda>citations.
          Inr (JObj [
            (''trustScore'',
               coalesce_default
                 (js_coalesce (opt_prop (Some backendResult) ''trustScore'')
                              (opt_prop (Some backendResult) ''trust_score''))
                 (JNum 50)),
            (''claims'', JArr claims),
            (''citations'', JArr citations),
            (''hallucinationRisk'',
               or_default (opt_prop (Some aiResult) ''hallucinationRisk'') (JStr ''Medium'')),
            (''hallucinationRiskReason'',
               or_default (opt_prop (Some aiResult) ''hallucinationRiskReason'')
                 (JStr ''Unable to assess'')),
            (''analysisSummary'',
               or_default (opt_prop (Some aiResult) ''analysisSummary'') (JStr [])),
            (''source'', JStr ''backend+ai'')])))
      else
        Inr (JObj [
          (''error'',
             JStr (case backendError of
                     None \<Rightarrow> ''Backend verification failed''
                   | Some m \<Rightarrow> if m = [] then ''Backend verification failed'' else m)),
          (''trustScore'', JNum 0),
          (''claims'', JArr []),
          (''citations'', JArr []),
          (''hallucinationRisk'',
             or_default (opt_prop (Some aiResult) ''hallucinationRisk'') (JStr ''Unknown'')),
          (''hallucinationRiskReason'',
             or_default (opt_prop (Some aiResult) ''hallucinationRiskReason'')
               (JStr ''Backend verification required'')),
          (''analysisSummary'',
             or_default (opt_prop (Some aiResult) ''analysisSummary'')
               (JStr ''Unable to verify without backend'')),
          (''source'', JStr ''ai-only-fallback'')]))"

text \<open>
  Step 1, lines 30--53: the call of the factual backend. The result is the pair
  (\<open>backendResult\<close>, \<open>backendError\<close>) the rest of the handler reads.
\<close>

definition callBackend ::
  "(string \<Rightarrow> js_error + json) \<Rightarrow> js_error + http_response \<Rightarrow> json \<times> string option" where
  "callBackend JSON_parse outcome =
     (case outcome of
        Inl e \<Rightarrow> (JNull, Some (message e))
      | Inr r \<Rightarrow>
          if \<not> resp_ok r then
            (case resp_text r of
               Inl e \<Rightarrow> (JNull, Some (message e))
             | Inr errorText \<Rightarrow> (JNull, Some (''Backend API error: '' @ show_nat (resp_status r))))
          else
            (case resp_json JSON_parse r of
               Inl e \<Rightarrow> (JNull, Some (message e))
             | Inr j \<Rightarrow> (j, None)))"

text \<open>
  Step 2, lines 93--131: the call of the AI gateway. Every failure inside the outer
  \<^verbatim>\<open>try\<close> leaves \<open>aiResult\<close> at \<^verbatim>\<open>null\<close>: a rejected fetch, a status outside 2xx, an
  unreadable body, a \<open>TypeError\<close> on the way to the content (\<^verbatim>\<open>aiData\<close> being
  \<^verbatim>\<open>null\<close>, or \<^verbatim>\<open>content.substring\<close> on a content that is not a string), and a
  content that does not parse.
\<close>

definition aiContent :: "json \<Rightarrow> js_error + json option" where
  "aiContent aiData =
     bind_result (get_prop (Some aiData) ''choices'') (\<lambda>choices.
       Inr (opt_prop (opt_prop (opt_index0 choices) ''message'') ''content''))"

definition callAi ::
  "(string \<Rightarrow> js_error + json) \<Rightarrow> js_error + http_response \<Rightarrow> json" where
  "callAi JSON_parse outcome =
     (case outcome of
        Inl e \<Rightarrow> JNull
      | Inr r \<Rightarrow>
          if \<not> resp_ok r then JNull
          else
            (case bind_result (resp_json JSON_parse r) aiContent of
               Inl e \<Rightarrow> JNull
             | Inr content \<Rightarrow>
                 if truthy content then
                   (case as_string content of
                      Inl e \<Rightarrow> JNull
                    | Inr c \<Rightarrow>
                        (case parse_ai_content JSON_parse content of
                           Inl parseError \<Rightarrow> JNull
                         | Inr j \<Rightarrow> j))
                 else JNull))"

text \<open>\<^verbatim>\<open>typeof v === "string"\<close>\<close>

fun is_string :: "json option \<Rightarrow> bool" where
  "is_string (Some (JStr s)) = True"
| "is_string v = False"

text \<open>
  The handler of verify-content, lines 11--202. Its inputs are the request method, the
  outcome of \<^verbatim>\<open>req.json()\<close>, the outcome of the backend call and of the gateway call
  for the submitted text, and the environment's \<^verbatim>\<open>LOVABLE_API_KEY\<close>. Whatever is
  thrown inside the outer \<^verbatim>\<open>try\<close> becomes a 500 reply.
\<close>

definition verifyContent ::
  "(string \<Rightarrow> js_error + json) \<Rightarrow> string \<Rightarrow> js_error + json
     \<Rightarrow> (string \<Rightarrow> js_error + http_response) \<Rightarrow> string option
     \<Rightarrow> (string \<Rightarrow> js_error + http_response) \<Rightarrow> response" where
  "verifyContent JSON_parse method reqJson backend LOVABLE_API_KEY gateway =
     (if method = ''OPTIONS'' then Preflight
      else
        (case
           bind_result reqJson (\<lambda>reqBody.
           bind_result (get_prop (Some reqBody) ''text'') (\<lambda>text.
             if \<not> truthy text \<or> \<not> is_string text
             then Inr (Json 400 (error_body ''Text is required''))
             else
               bind_result (as_string text) (\<lambda>t.
                 (case callBackend JSON_parse (backend t) of
                    (backendResult, backendError) \<Rightarrow>
                      if LOVABLE_API_KEY = None \<or> LOVABLE_API_KEY = Some []
                      then Inl (Error ''LOVABLE_API_KEY is not configured'')
                      else
                        bind_result
                          (mergeResults backendResult backendError
                             (callAi JSON_parse (gateway t)))
                          (\<lambda>finalResult. Inr (Json 200 finalResult))))))
         of
           Inl error \<Rightarrow> Json 500 (error_body (message error))
         | Inr reply \<Rightarrow> reply))"

section \<open>URL Probe (verify-citations)\<close>

text \<open>
  The result of \<open>checkUrl\<close>. The title and preview of a page are cut out of the HTML by
  regular expressions; that scraping is not modelled, the two functions that do it are
  fields of the environment below.
\<close>

record probe_result =
  exists :: bool
  status :: nat
  title :: "string option"
  preview :: "string option"

record probe_env =
  fetch_page :: "string \<Rightarrow> js_error + http_response"
  title_of :: "string \<Rightarrow> string option"
  preview_of :: "string \<Rightarrow> string"

definition rejected :: probe_result where
  "rejected = \<lparr>exists = False, status = 0, title = None, preview = None\<rparr>"

text \<open>
  The body of the \<^verbatim>\<open>try\<close> in \<open>checkUrl\<close>, lines 24--61. The second component is the
  list of URLs a request was issued for. A \<^verbatim>\<open>url\<close> that is truthy and not a string
  makes \<^verbatim>\<open>url.startsWith\<close> a \<open>TypeError\<close>; the 5-second abort is a rejected fetch.
\<close>

definition checkUrl_try :: "probe_env \<Rightarrow> json option \<Rightarrow> (js_error + probe_result) \<times> string list" where
  "checkUrl_try env url =
     (if \<not> truthy url \<or> url = Some (JStr ''unknown'') then (Inr rejected, [])
      else
        (case as_string url of
           Inl e \<Rightarrow> (Inl e, [])
         | Inr u \<Rightarrow>
             if \<not> startsWith u ''http'' then (Inr rejected, [])
             else
               (case fetch_page env u of
                  Inl e \<Rightarrow> (Inl e, [u])
                | Inr response \<Rightarrow>
                    if \<not> resp_ok response
                    then (Inr \<lparr>exists = False, status = resp_status response,
                               title = None, preview = None\<rparr>, [u])
                    else
                      (case resp_text response of
                         Inl e \<Rightarrow> (Inl e, [u])
                       | Inr html \<Rightarrow>
                           (Inr \<lparr>exists = True, status = resp_status response,
                                  title = title_of env html,
                                  preview = Some (preview_of env html)\<rparr>, [u])))))"

text \<open>\<open>checkUrl\<close>, lines 22--66: the \<^verbatim>\<open>catch\<close> turns every exception into a rejection.\<close>

definition checkUrl :: "probe_env \<Rightarrow> json option \<Rightarrow> probe_result \<times> string list" where
  "checkUrl env url =
     (case checkUrl_try env url of
        (Inl error, requests) \<Rightarrow> (rejected, requests)
      | (Inr result, requests) \<Rightarrow> (result, requests))"

section \<open>Citation Re-verifier (verify-citations)\<close>

text \<open>
  A property of an object literal: \<open>Some v\<close> sets the key (in place when the object has
  it, at the end otherwise); \<^verbatim>\<open>undefined\<close> leaves no entry in the serialized reply.
\<close>

fun set_field :: "string \<Rightarrow> json option \<Rightarrow> (string \<times> json) list \<Rightarrow> (string \<times> json) list" where
  "set_field k None kvs = AList.delete k kvs"
| "set_field k (Some v) kvs = AList.update k v kvs"

text \<open>
  \<^verbatim>\<open>{...citation}\<close>: the entries of an object; the elements of an array and the
  characters of a string under their indices; nothing for the other values.
\<close>

fun spread :: "json \<Rightarrow> (string \<times> json) list" where
  "spread (JObj kvs) = kvs"
| "spread (JArr xs) = zip (map show_nat [0..<length xs]) xs"
| "spread (JStr s) = zip (map show_nat [0..<length s]) (map (\<lambda>c. JStr [c]) s)"
| "spread v = []"

text \<open>Lines 89--104: the reconciliation of the prior status with the probe.\<close>

definition reconcile :: "json option \<Rightarrow> json option \<Rightarrow> probe_result \<Rightarrow> json option \<times> json option" where
  "reconcile citationStatus citationReason result =
     (if exists result then
        (if citationStatus = Some (JStr ''broken'')
         then (Some (JStr ''valid''),
               Some (JStr (''URL is accessible. Page title: \"''
                           @ (case title result of
                                None \<Rightarrow> ''Unknown''
                              | Some t \<Rightarrow> if t = [] then ''Unknown'' else t)
                           @ ''\"'')))
         else (citationStatus, citationReason))
      else
        (if citationStatus = Some (JStr ''valid'')
         then (Some (JStr ''broken''),
               Some (JStr (if status result \<noteq> 0
                           then ''URL returned HTTP '' @ show_nat (status result)
                           else ''URL is not accessible or does not exist'')))
         else (citationStatus, citationReason)))"

text \<open>
  Lines 86--115: the callback run on one element of \<^verbatim>\<open>citations\<close>. Reading
  \<^verbatim>\<open>citation.url\<close> of \<^verbatim>\<open>null\<close> throws outside \<open>checkUrl\<close>.
\<close>

definition verifyCitation :: "probe_env \<Rightarrow> json \<Rightarrow> js_error + json" where
  "verifyCitation env citation =
     bind_result (get_prop (Some citation) ''url'') (\<lambda>url.
       let result = fst (checkUrl env url) in
       bind_result (get_prop (Some citation) ''status'') (\<lambda>citationStatus.
       bind_result (get_prop (Some citation) ''reason'') (\<lambda>citationReason.
         (case reconcile citationStatus citationReason result of
            (updatedStatus, updatedReason) \<Rightarrow>
              Inr (JObj
                (set_field ''contentPreview'' (map_option JStr (preview result))
                (set_field ''pageTitle'' (map_option JStr (title result))
                (set_field ''httpStatus'' (Some (JNum (of_nat (status result))))
                (set_field ''verified'' (Some (JBool True))
                (set_field ''reason'' updatedReason
                (set_field ''status'' updatedStatus
                  (spread citation))))))))))))"

text \<open>
  The handler of verify-citations, lines 68--130: \<^verbatim>\<open>Promise.all\<close> over the callbacks
  keeps the order of the input and rejects when a callback throws.
\<close>

definition verifyCitations :: "probe_env \<Rightarrow> string \<Rightarrow> js_error + json \<Rightarrow> response" where
  "verifyCitations env method reqJson =
     (if method = ''OPTIONS'' then Preflight
      else
        (case
           bind_result reqJson (\<lambda>reqBody.
           bind_result (get_prop (Some reqBody) ''citations'') (\<lambda>citations.
             (case citations of
                Some (JArr cs) \<Rightarrow>
                  bind_result (map_result (verifyCitation env) cs) (\<lambda>verifiedCitations.
                    Inr (Json 200 (JObj [(''citations'', JArr verifiedCitations)])))
              | _ \<Rightarrow> Inr (Json 400 (error_body ''Citations array is required'')))))
         of
           Inl error \<Rightarrow> Json 500 (error_body (message error))
         | Inr reply \<Rightarrow> reply))"

section \<open>Detect AI (detect-ai)\<close>

definition defaultDetection :: json where
  "defaultDetection =
     JObj [(''isAiGenerated'', JBool False),
           (''confidence'', JNum 50),
           (''indicators'', JArr []),
           (''analysis'', JStr ''Unable to determine AI authorship''),
           (''error'', JStr ''Failed to parse AI analysis'')]"

text \<open>
  The handler of detect-ai, lines 8--129. The gateway is asked about the first 4000
  characters of the text. Only the statements of lines 104--106 are inside the inner
  \<^verbatim>\<open>try\<close>, whose \<^verbatim>\<open>catch\<close> substitutes the default payload.
\<close>

definition detectAi ::
  "(string \<Rightarrow> js_error + json) \<Rightarrow> string \<Rightarrow> js_error + json \<Rightarrow> string option
     \<Rightarrow> (string \<Rightarrow> js_error + http_response) \<Rightarrow> response" where
  "detectAi JSON_parse method reqJson LOVABLE_API_KEY gateway =
     (if method = ''OPTIONS'' then Preflight
      else
        (case
           bind_result reqJson (\<lambda>reqBody.
           bind_result (get_prop (Some reqBody) ''text'') (\<lambda>text.
             if \<not> truthy text \<or> \<not> is_string text
             then Inr (Json 400 (error_body ''Text is required''))
             else
               bind_result (as_string text) (\<lambda>t.
                 if LOVABLE_API_KEY = None \<or> LOVABLE_API_KEY = Some []
                 then Inl (Error ''LOVABLE_API_KEY is not configured'')
                 else
                   bind_result (gateway (substring0 4000 t)) (\<lambda>response.
                     if \<not> resp_ok response then
                       bind_result (resp_text response) (\<lambda>errorText.
                         if resp_status response = 429
                         then Inr (Json 429 (error_body
                                ''Rate limit exceeded. Please try again in a moment.''))
                         else if resp_status response = 402
                         then Inr (Json 402 (error_body
                                ''AI credits exhausted. Please add credits to continue.''))
                         else Inl (Error (''AI gateway error: ''
                                          @ show_nat (resp_status response))))
                     else
                       bind_result (resp_json JSON_parse response) (\<lambda>data.
                       bind_result (aiContent data) (\<lambda>content.
                         if \<not> truthy content then Inl (Error ''No response from AI'')
                         else
                           (case parse_ai_content JSON_parse content of
                              Inl parseError \<Rightarrow> Inr (Json 200 defaultDetection)
                            | Inr result \<Rightarrow> Inr (Json 200 result))))))))
         of
           Inl error \<Rightarrow> Json 500 (error_body (message error))
         | Inr reply \<Rightarrow> reply))"

section \<open>The specification's wording of the matching rules\<close>

text \<open>
  A keyword occurs in a string case-insensitively when some substring of the string
  lower-cases to the keyword.
\<close>

definition occurs_ci :: "string \<Rightarrow> string \<Rightarrow> bool" where
  "occurs_ci kw s = (\<exists>u w v. s = u @ w @ v \<and> toLowerCase w = kw)"




section \<open>Sample inputs\<close>

text \<open>
  A small network for the instances below: one page that answers 200, one that answers
  404, and every other host timing out.
\<close>

definition sample_env :: probe_env where
  "sample_env =
     \<lparr>fetch_page = (\<lambda>u.
          if u = ''https://example.com''
          then Inr (HttpResponse 200 (Inr ''<title>Example Domain</title>''))
          else if u = ''https://gone.org'' then Inr (HttpResponse 404 (Inr ''Not Found''))
          else Inl (FetchError ''timed out'')),
       title_of = (\<lambda>html.
          if html = ''<title>Example Domain</title>'' then Some ''Example Domain'' else None),
       preview_of = (\<lambda>html.
          if html = ''<title>Example Domain</title>'' then ''Example Domain'' else html)\<rparr>"

definition sample_citations :: "json list" where
  "sample_citations =
     [JObj [(''source'', JStr ''Example''), (''url'', JStr ''https://example.com''),
            (''status'', JStr ''broken''), (''reason'', JStr ''Link did not resolve'')],
      JObj [(''source'', JStr ''Memo''), (''url'', JStr ''unknown''),
            (''status'', JStr ''valid''), (''reason'', JStr ''Cited in text'')],
      JObj [(''source'', JStr ''Gone''), (''url'', JStr ''https://gone.org''),
            (''status'', JStr ''valid''), (''reason'', JStr ''Cited in text'')],
      JObj [(''source'', JStr ''Journal of Nothing''), (''url'', JStr ''https://example.com''),
            (''status'', JStr ''fake''), (''reason'', JStr ''No such journal'')]]"

text \<open>
  A \<^verbatim>\<open>JSON.parse\<close> that knows eight texts and rejects every other: \<^verbatim>\<open>null\<close>, the
  empty object, an AI insight, and five gateway replies whose content is that insight,
  prose, an empty object after a vertical tab, a fenced empty object, and a fenced text
  that is not JSON. In a reply the content is a JSON string, so a line feed is written
  \<^verbatim>\<open>\n\<close> and the vertical tab \<^verbatim>\<open>\u000b\<close> there.
\<close>

definition escaped_quote :: string where
  "escaped_quote = [CHR 0x5C, CHR 0x22]"

definition sample_insight_text :: string where
  "sample_insight_text = ''{\"hallucinationRisk\":\"High\"}''"

definition sample_insight_reply :: string where
  "sample_insight_reply =
     ''{\"choices\":[{\"message\":{\"content\":\"{'' @ escaped_quote @ ''hallucinationRisk''
     @ escaped_quote @ '':'' @ escaped_quote @ ''High'' @ escaped_quote @ ''}\"}}]}''"

definition sample_prose_reply :: string where
  "sample_prose_reply =
     ''{\"choices\":[{\"message\":{\"content\":\"I think a human wrote it\"}}]}''"

definition sample_vt_content :: string where
  "sample_vt_content = [CHR 0x0B] @ ''{}''"

definition sample_vt_reply :: string where
  "sample_vt_reply =
     ''{\"choices\":[{\"message\":{\"content\":\"'' @ [CHR 0x5C] @ ''u000b{}\"}}]}''"

definition sample_fenced_content :: string where
  "sample_fenced_content = fence @ ''json'' @ [CHR 0x0A] @ ''{}'' @ [CHR 0x0A] @ fence"

definition sample_fenced_reply :: string where
  "sample_fenced_reply =
     ''{\"choices\":[{\"message\":{\"content\":\"'' @ fence @ ''json'' @ [CHR 0x5C] @ ''n{}''
     @ [CHR 0x5C] @ ''n'' @ fence @ ''\"}}]}''"

definition sample_unparsable_content :: string where
  "sample_unparsable_content =
     ''Sure: '' @ fence @ ''json'' @ [CHR 0x0A] @ ''{oops'' @ [CHR 0x0A] @ fence"

definition sample_unparsable_reply :: string where
  "sample_unparsable_reply =
     ''{\"choices\":[{\"message\":{\"content\":\"Sure: '' @ fence @ ''json'' @ [CHR 0x5C]
     @ ''n{oops'' @ [CHR 0x5C] @ ''n'' @ fence @ ''\"}}]}''"

definition content_reply :: "string \<Rightarrow> json" where
  "content_reply c = JObj [(''choices'', JArr [JObj [(''message'', JObj [(''content'', JStr c)])]])]"

definition sample_parse :: "string \<Rightarrow> js_error + json" where
  "sample_parse s =
     (if s = ''null'' then Inr JNull
      else if s = ''{}'' then Inr (JObj [])
      else if s = sample_vt_reply then Inr (content_reply sample_vt_content)
      else if s = sample_fenced_reply then Inr (content_reply sample_fenced_content)
      else if s = sample_unparsable_reply then Inr (content_reply sample_unparsable_content)
      else if s = sample_insight_text
      then Inr (JObj [(''hallucinationRisk'', JStr ''High'')])
      else if s = sample_insight_reply
      then Inr (JObj [(''choices'',
                  JArr [JObj [(''message'', JObj [(''content'', JStr sample_insight_text)])]])])
      else if s = sample_prose_reply
      then Inr (JObj [(''choices'',
                  JArr [JObj [(''message'',
                    JObj [(''content'', JStr ''I think a human wrote it'')])]])])
      else Inl (SyntaxError ''Unexpected token''))"

text \<open>An AI result with one source suggestion, and a backend claim it overlaps.\<close>

definition sample_entry :: json where
  "sample_entry =
     JObj [(''claimText'', JStr ''water boils at 100 c at sea level''),
           (''suggestedSources'', JArr [JStr ''https://www.nist.gov''])]"

definition sample_aiResult :: json where
  "sample_aiResult =
     JObj [(''hallucinationRisk'', JStr ''Low''),
           (''sourceSuggestions'', JArr [sample_entry])]"

definition sample_claim :: "(string \<times> json) list" where
  "sample_claim = [(''text'', JStr ''Water boils at 100 C''), (''status'', JStr ''true'')]"

definition sample_backendResult :: json where
  "sample_backendResult = JObj [(''trustScore'', JNum 82), (''claims'', JArr [JObj sample_claim])]"

section \<open>Substring search and case folding\<close>

lemma startsWith_iff: "startsWith s p \<longleftrightarrow> (\<exists>v. s = p @ v)"
  unfolding startsWith_def by (metis append_eq_conv_conj)

lemma js_includes_iff: "js_includes s t \<longleftrightarrow> (\<exists>u v. s = u @ t @ v)"
proof (induction s)
  case Nil
  then show ?case by simp
next
  case (Cons c cs)
  have "(\<exists>u v. c # cs = u @ t @ v) \<longleftrightarrow> (\<exists>v. c # cs = t @ v) \<or> (\<exists>u v. cs = u @ t @ v)"
  proof
    assume "\<exists>u v. c # cs = u @ t @ v"
    then obtain u v where uv: "c # cs = u @ t @ v" by blast
    show "(\<exists>v. c # cs = t @ v) \<or> (\<exists>u v. cs = u @ t @ v)"
    proof (cases u)
      case Nil
      with uv show ?thesis by auto
    next
      case (Cons a u')
      with uv have "cs = u' @ t @ v" by simp
      then show ?thesis by blast
    qed
  next
    assume "(\<exists>v. c # cs = t @ v) \<or> (\<exists>u v. cs = u @ t @ v)"
    then show "\<exists>u v. c # cs = u @ t @ v"
    proof
      assume "\<exists>v. c # cs = t @ v"
      then obtain v where "c # cs = [] @ t @ v" by auto
      then show ?thesis by blast
    next
      assume "\<exists>u v. cs = u @ t @ v"
      then obtain u v where "c # cs = (c # u) @ t @ v" by auto
      then show ?thesis by blast
    qed
  qed
  then show ?case using Cons.IH by (simp add: startsWith_iff)
qed

lemma lower_includes_iff: "js_includes (toLowerCase s) kw \<longleftrightarrow> occurs_ci kw s"
proof
  assume "js_includes (toLowerCase s) kw"
  then obtain a b where ab: "toLowerCase s = a @ kw @ b"
    by (auto simp: js_includes_iff)
  let ?u = "take (length a) s"
  let ?w = "take (length kw) (drop (length a) s)"
  let ?v = "drop (length kw) (drop (length a) s)"
  have "drop (length a) s = ?w @ ?v" by (rule append_take_drop_id [symmetric])
  then have "s = ?u @ ?w @ ?v" by (metis append_take_drop_id)
  moreover have "toLowerCase ?w = take (length kw) (drop (length a) (toLowerCase s))"
    by (simp add: toLowerCase_def take_map drop_map)
  then have "toLowerCase ?w = kw" using ab by simp
  ultimately show "occurs_ci kw s" unfolding occurs_ci_def by blast
next
  assume "occurs_ci kw s"
  then obtain u w v where "s = u @ w @ v" "toLowerCase w = kw"
    unfolding occurs_ci_def by blast
  then have "toLowerCase s = toLowerCase u @ kw @ toLowerCase v"
    by (auto simp: toLowerCase_def)
  then show "js_includes (toLowerCase s) kw"
    unfolding js_includes_iff by blast
qed

lemma occurs_ci_nonempty: "occurs_ci kw s \<Longrightarrow> kw \<noteq> [] \<Longrightarrow> s \<noteq> []"
  by (auto simp: occurs_ci_def toLowerCase_def)

section \<open>Properties of the Status Normalizer\<close>

lemma normalizeClaimStatus_string:
  "normalizeClaimStatus (Some (JStr s)) =
     Inr (if s = [] then ClaimQuestionable
          else if occurs_ci ''true'' s \<or> occurs_ci ''verified'' s \<or> occurs_ci ''accurate'' s
                  \<or> occurs_ci ''correct'' s then ClaimVerified
          else if occurs_ci ''false'' s \<or> occurs_ci ''incorrect'' s \<or> occurs_ci ''wrong'' s
                  \<or> occurs_ci ''fake'' s then ClaimFalse
          else ClaimQuestionable)"
  by (simp add: normalizeClaimStatus_def bind_result_def Let_def lower_includes_iff)

lemma normalizeCitationStatus_string:
  "normalizeCitationStatus (Some (JStr s)) =
     Inr (if s = [] then CitationBroken
          else if occurs_ci ''valid'' s \<or> occurs_ci ''exists'' s \<or> occurs_ci ''found'' s
                  \<or> occurs_ci ''working'' s then CitationValid
          else if occurs_ci ''fake'' s \<or> occurs_ci ''fabricated'' s \<or> occurs_ci ''nonexistent'' s
                  \<or> occurs_ci ''false'' s then CitationFake
          else CitationBroken)"
  by (simp add: normalizeCitationStatus_def bind_result_def Let_def lower_includes_iff)

text \<open>
  Claim C2. \<open>normalizeClaimStatus\<close> and \<open>normalizeCitationStatus\<close> return a value of
  their three-valued enum on every string and on a missing argument, never an error, and
  every value of the enum is returned on some string. They decide by case-insensitive
  substring matching in a fixed order: for claims the positive keywords (true, verified,
  accurate, correct) first, giving \<open>verified\<close>, then the negative ones (false,
  incorrect, wrong, fake), giving \<open>false\<close>, else \<open>questionable\<close>; for citations the
  positive keywords (valid, exists, found, working), giving \<open>valid\<close>, then the
  fabrication keywords (fake, fabricated, nonexistent, false), giving \<open>fake\<close>, else
  \<open>broken\<close>. The empty string and a missing argument give \<open>questionable\<close> and
  \<open>broken\<close>.
\<close>

theorem normalize_status_total_priority:
  "normalizeClaimStatus None = Inr ClaimQuestionable
   \<and> normalizeClaimStatus (Some (JStr [])) = Inr ClaimQuestionable
   \<and> normalizeClaimStatus (Some (JStr s)) =
       Inr (if s = [] then ClaimQuestionable
            else if \<exists>kw \<in> {''true'', ''verified'', ''accurate'', ''correct''}. occurs_ci kw s
            then ClaimVerified
            else if \<exists>kw \<in> {''false'', ''incorrect'', ''wrong'', ''fake''}. occurs_ci kw s
            then ClaimFalse
            else ClaimQuestionable)
   \<and> normalizeCitationStatus None = Inr CitationBroken
   \<and> normalizeCitationStatus (Some (JStr [])) = Inr CitationBroken
   \<and> normalizeCitationStatus (Some (JStr s)) =
       Inr (if s = [] then CitationBroken
            else if \<exists>kw \<in> {''valid'', ''exists'', ''found'', ''working''}. occurs_ci kw s
            then CitationValid
            else if \<exists>kw \<in> {''fake'', ''fabricated'', ''nonexistent'', ''false''}. occurs_ci kw s
            then CitationFake
            else CitationBroken)
   \<and> (\<forall>v. \<exists>t. normalizeClaimStatus (Some (JStr t)) = Inr v)
   \<and> (\<forall>v. \<exists>t. normalizeCitationStatus (Some (JStr t)) = Inr v)"
proof -
  have onto1: "\<exists>t. normalizeClaimStatus (Some (JStr t)) = Inr v" for v
  proof (cases v)
    case ClaimVerified
    have "normalizeClaimStatus (Some (JStr ''true'')) = Inr ClaimVerified" by code_simp
    with ClaimVerified show ?thesis by blast
  next
    case ClaimQuestionable
    have "normalizeClaimStatus (Some (JStr [])) = Inr ClaimQuestionable" by code_simp
    with ClaimQuestionable show ?thesis by blast
  next
    case ClaimFalse
    have "normalizeClaimStatus (Some (JStr ''false'')) = Inr ClaimFalse" by code_simp
    with ClaimFalse show ?thesis by blast
  qed
  have onto2: "\<exists>t. normalizeCitationStatus (Some (JStr t)) = Inr v" for v
  proof (cases v)
    case CitationValid
    have "normalizeCitationStatus (Some (JStr ''valid'')) = Inr CitationValid" by code_simp
    with CitationValid show ?thesis by blast
  next
    case CitationBroken
    have "normalizeCitationStatus (Some (JStr [])) = Inr CitationBroken" by code_simp
    with CitationBroken show ?thesis by blast
  next
    case CitationFake
    have "normalizeCitationStatus (Some (JStr ''fake'')) = Inr CitationFake" by code_simp
    with CitationFake show ?thesis by blast
  qed
  have e1: "normalizeClaimStatus None = Inr ClaimQuestionable"
    by (simp add: normalizeClaimStatus_def)
  have e2: "normalizeCitationStatus None = Inr CitationBroken"
    by (simp add: normalizeCitationStatus_def)
  have e3: "normalizeClaimStatus (Some (JStr [])) = Inr ClaimQuestionable"
    by (simp add: normalizeClaimStatus_def)
  have e4: "normalizeCitationStatus (Some (JStr [])) = Inr CitationBroken"
    by (simp add: normalizeCitationStatus_def)
  have c1: "normalizeClaimStatus (Some (JStr s)) =
       Inr (if s = [] then ClaimQuestionable
            else if \<exists>kw \<in> {''true'', ''verified'', ''accurate'', ''correct''}. occurs_ci kw s
            then ClaimVerified
            else if \<exists>kw \<in> {''false'', ''incorrect'', ''wrong'', ''fake''}. occurs_ci kw s
            then ClaimFalse
            else ClaimQuestionable)"
    by (simp add: normalizeClaimStatus_string)
  have c2: "normalizeCitationStatus (Some (JStr s)) =
       Inr (if s = [] then CitationBroken
            else if \<exists>kw \<in> {''valid'', ''exists'', ''found'', ''working''}. occurs_ci kw s
            then CitationValid
            else if \<exists>kw \<in> {''fake'', ''fabricated'', ''nonexistent'', ''false''}. occurs_ci kw s
            then CitationFake
            else CitationBroken)"
    by (simp add: normalizeCitationStatus_string)
  from onto1 have o1: "\<forall>v. \<exists>t. normalizeClaimStatus (Some (JStr t)) = Inr v" ..
  from onto2 have o2: "\<forall>v. \<exists>t. normalizeCitationStatus (Some (JStr t)) = Inr v" ..
  show ?thesis by (intro conjI e1 e2 e3 e4 c1 c2 o1 o2)
qed

lemma occurs_ciI: "s = u @ w @ v \<Longrightarrow> toLowerCase w = kw \<Longrightarrow> occurs_ci kw s"
  unfolding occurs_ci_def by blast

text \<open>The priority rule at two inputs: an upper-case positive keyword, and a citation status
  with a fabrication keyword and no positive one.\<close>

theorem normalize_status_total_priority_witness:
  "(\<exists>kw \<in> {''true'', ''verified'', ''accurate'', ''correct''}. occurs_ci kw ''Mostly TRUE'')
   \<and> normalizeClaimStatus (Some (JStr ''Mostly TRUE'')) = Inr ClaimVerified
   \<and> \<not> (\<exists>kw \<in> {''valid'', ''exists'', ''found'', ''working''}. occurs_ci kw ''Fake'')
   \<and> (\<exists>kw \<in> {''fake'', ''fabricated'', ''nonexistent'', ''false''}. occurs_ci kw ''Fake'')
   \<and> normalizeCitationStatus (Some (JStr ''Fake'')) = Inr CitationFake"
proof -
  have low: "toLowerCase ''TRUE'' = ''true''" "toLowerCase ''Fake'' = ''fake''" by code_simp+
  have a: "occurs_ci ''true'' ''Mostly TRUE''"
    by (rule occurs_ciI [of _ "''Mostly ''" "''TRUE''" "[]"]) (simp_all add: low)
  have b: "occurs_ci ''fake'' ''Fake''"
    by (rule occurs_ciI [of _ "[]" "''Fake''" "[]"]) (simp_all add: low)
  have c: "\<not> js_includes (toLowerCase ''Fake'') kw"
    if "kw \<in> {''valid'', ''exists'', ''found'', ''working''}" for kw
    using that by (auto simp: low startsWith_def)
  have c': "\<not> (\<exists>kw \<in> {''valid'', ''exists'', ''found'', ''working''}. occurs_ci kw ''Fake'')"
    using c lower_includes_iff by blast
  from a b c' normalize_status_total_priority [of "''Mostly TRUE''"]
       normalize_status_total_priority [of "''Fake''"]
  show ?thesis by simp
qed

text \<open>
  Claim C10. Since the positive keywords are tested first and by plain substring
  containment, a status string that contains a positive keyword anywhere is mapped to
  \<open>verified\<close> (claims) or \<open>valid\<close> (citations), also when the keyword sits inside a
  negating word and when negative keywords are present too: \<^verbatim>\<open>"untrue"\<close> is
  \<open>verified\<close> and \<^verbatim>\<open>"invalid"\<close> is \<open>valid\<close>.
\<close>

theorem positive_keyword_wins:
  "(kw \<in> {''true'', ''verified'', ''accurate'', ''correct''} \<and> occurs_ci kw s
      \<longrightarrow> normalizeClaimStatus (Some (JStr s)) = Inr ClaimVerified)
   \<and> (kw \<in> {''valid'', ''exists'', ''found'', ''working''} \<and> occurs_ci kw s
      \<longrightarrow> normalizeCitationStatus (Some (JStr s)) = Inr CitationValid)
   \<and> normalizeClaimStatus (Some (JStr ''untrue'')) = Inr ClaimVerified
   \<and> normalizeCitationStatus (Some (JStr ''invalid'')) = Inr CitationValid
   \<and> normalizeClaimStatus (Some (JStr ''false, not true'')) = Inr ClaimVerified
   \<and> normalizeCitationStatus (Some (JStr ''fake but found'')) = Inr CitationValid"
proof -
  have a: "kw \<in> {''true'', ''verified'', ''accurate'', ''correct''} \<and> occurs_ci kw s
      \<longrightarrow> normalizeClaimStatus (Some (JStr s)) = Inr ClaimVerified"
  proof
    assume h: "kw \<in> {''true'', ''verified'', ''accurate'', ''correct''} \<and> occurs_ci kw s"
    then have "kw \<noteq> []" by auto
    with h have ne: "s \<noteq> []" using occurs_ci_nonempty by blast
    from h have "occurs_ci ''true'' s \<or> occurs_ci ''verified'' s \<or> occurs_ci ''accurate'' s
                  \<or> occurs_ci ''correct'' s" by auto
    with ne show "normalizeClaimStatus (Some (JStr s)) = Inr ClaimVerified"
      by (simp only: normalizeClaimStatus_string if_True if_False)
  qed
  have b: "kw \<in> {''valid'', ''exists'', ''found'', ''working''} \<and> occurs_ci kw s
      \<longrightarrow> normalizeCitationStatus (Some (JStr s)) = Inr CitationValid"
  proof
    assume h: "kw \<in> {''valid'', ''exists'', ''found'', ''working''} \<and> occurs_ci kw s"
    then have "kw \<noteq> []" by auto
    with h have ne: "s \<noteq> []" using occurs_ci_nonempty by blast
    from h have "occurs_ci ''valid'' s \<or> occurs_ci ''exists'' s \<or> occurs_ci ''found'' s
                  \<or> occurs_ci ''working'' s" by auto
    with ne show "normalizeCitationStatus (Some (JStr s)) = Inr CitationValid"
      by (simp only: normalizeCitationStatus_string if_True if_False)
  qed
  have c: "normalizeClaimStatus (Some (JStr ''untrue'')) = Inr ClaimVerified" by code_simp
  have d: "normalizeCitationStatus (Some (JStr ''invalid'')) = Inr CitationValid" by code_simp
  have e: "normalizeClaimStatus (Some (JStr ''false, not true'')) = Inr ClaimVerified" by code_simp
  have f: "normalizeCitationStatus (Some (JStr ''fake but found'')) = Inr CitationValid" by code_simp
  show ?thesis by (intro conjI a b c d e f)
qed

text \<open>A status that holds both a positive and a negative keyword.\<close>

theorem positive_keyword_wins_witness:
  "''true'' \<in> {''true'', ''verified'', ''accurate'', ''correct''}
   \<and> occurs_ci ''true'' ''Untrue and FALSE''
   \<and> occurs_ci ''false'' ''Untrue and FALSE''
   \<and> normalizeClaimStatus (Some (JStr ''Untrue and FALSE'')) = Inr ClaimVerified"
proof -
  have low: "toLowerCase ''true'' = ''true''" "toLowerCase ''FALSE'' = ''false''" by code_simp+
  have a: "occurs_ci ''true'' ''Untrue and FALSE''"
    by (rule occurs_ciI [of _ "''Un''" "''true''" "'' and FALSE''"]) (simp_all add: low)
  have b: "occurs_ci ''false'' ''Untrue and FALSE''"
    by (rule occurs_ciI [of _ "''Untrue and ''" "''FALSE''" "[]"]) (simp_all add: low)
  from a b positive_keyword_wins [of "''true''" "''Untrue and FALSE''"]
  show ?thesis by simp
qed

section \<open>Properties of the URL Probe\<close>

lemma as_string_Inr: "as_string v = Inr s \<longleftrightarrow> v = Some (JStr s)"
  by (cases "(v)" rule: as_string.cases) auto

text \<open>
  Claim C6. The URL probe always returns a result and never lets an exception out. For a
  \<^verbatim>\<open>url\<close> that is falsy, equal to \<^verbatim>\<open>"unknown"\<close> or not starting with \<^verbatim>\<open>http\<close> it
  returns \<open>exists = false, status = 0\<close> and issues no request; a response outside 2xx
  gives \<open>exists = false\<close> with the response code; a rejected fetch (timeout, DNS failure,
  refused connection), like every other exception of the body, is caught and gives
  \<open>exists = false, status = 0\<close>. A nonzero status with \<open>exists = false\<close> is always the
  code of a response outside 2xx.
\<close>

theorem checkUrl_total_no_throw:
  "(\<not> truthy url \<or> url = Some (JStr ''unknown'')
      \<or> (\<exists>u. url = Some (JStr u) \<and> \<not> startsWith u ''http'')
      \<longrightarrow> checkUrl env url = (\<lparr>exists = False, status = 0, title = None, preview = None\<rparr>, []))
   \<and> (url = Some (JStr u) \<and> startsWith u ''http'' \<and> fetch_page env u = Inr r \<and> \<not> resp_ok r
      \<longrightarrow> checkUrl env url
            = (\<lparr>exists = False, status = resp_status r, title = None, preview = None\<rparr>, [u]))
   \<and> (url = Some (JStr u) \<and> startsWith u ''http'' \<and> fetch_page env u = Inl e
      \<longrightarrow> checkUrl env url = (\<lparr>exists = False, status = 0, title = None, preview = None\<rparr>, [u]))
   \<and> (checkUrl_try env url = (Inl e, requests)
      \<longrightarrow> checkUrl env url
            = (\<lparr>exists = False, status = 0, title = None, preview = None\<rparr>, requests))
   \<and> (\<not> exists (fst (checkUrl env url)) \<and> status (fst (checkUrl env url)) \<noteq> 0
      \<longrightarrow> (\<exists>u' r'. url = Some (JStr u') \<and> fetch_page env u' = Inr r' \<and> \<not> resp_ok r'
                   \<and> status (fst (checkUrl env url)) = resp_status r'))"
proof (intro conjI impI)
  assume "\<not> truthy url \<or> url = Some (JStr ''unknown'')
      \<or> (\<exists>u. url = Some (JStr u) \<and> \<not> startsWith u ''http'')"
  then show "checkUrl env url = (\<lparr>exists = False, status = 0, title = None, preview = None\<rparr>, [])"
    by (auto simp: checkUrl_def checkUrl_try_def rejected_def)
next
  assume "url = Some (JStr u) \<and> startsWith u ''http'' \<and> fetch_page env u = Inr r \<and> \<not> resp_ok r"
  moreover from this have "u \<noteq> []" "u \<noteq> ''unknown''" by (auto simp: startsWith_def)
  ultimately show "checkUrl env url
            = (\<lparr>exists = False, status = resp_status r, title = None, preview = None\<rparr>, [u])"
    by (simp add: checkUrl_def checkUrl_try_def)
next
  assume "url = Some (JStr u) \<and> startsWith u ''http'' \<and> fetch_page env u = Inl e"
  moreover from this have "u \<noteq> []" "u \<noteq> ''unknown''" by (auto simp: startsWith_def)
  ultimately show "checkUrl env url = (\<lparr>exists = False, status = 0, title = None, preview = None\<rparr>, [u])"
    by (simp add: checkUrl_def checkUrl_try_def rejected_def)
next
  assume "checkUrl_try env url = (Inl e, requests)"
  then show "checkUrl env url
            = (\<lparr>exists = False, status = 0, title = None, preview = None\<rparr>, requests)"
    by (simp add: checkUrl_def rejected_def)
next
  assume "\<not> exists (fst (checkUrl env url)) \<and> status (fst (checkUrl env url)) \<noteq> 0"
  then show "\<exists>u' r'. url = Some (JStr u') \<and> fetch_page env u' = Inr r' \<and> \<not> resp_ok r'
                   \<and> status (fst (checkUrl env url)) = resp_status r'"
    by (auto simp: checkUrl_def checkUrl_try_def rejected_def as_string_Inr
             split: if_splits sum.splits)
qed

text \<open>The probe on the sample network: the sentinel, a URL of another scheme, a page that
  answers 404, a host that times out, and a \<^verbatim>\<open>url\<close> that is not a string.\<close>

theorem checkUrl_total_no_throw_witness:
  "checkUrl sample_env (Some (JStr ''unknown''))
     = (\<lparr>exists = False, status = 0, title = None, preview = None\<rparr>, [])
   \<and> checkUrl sample_env (Some (JStr ''ftp://example.com''))
     = (\<lparr>exists = False, status = 0, title = None, preview = None\<rparr>, [])
   \<and> checkUrl sample_env (Some (JStr ''https://gone.org''))
     = (\<lparr>exists = False, status = 404, title = None, preview = None\<rparr>, [''https://gone.org''])
   \<and> checkUrl sample_env (Some (JStr ''http://slow.example''))
     = (\<lparr>exists = False, status = 0, title = None, preview = None\<rparr>, [''http://slow.example''])
   \<and> checkUrl sample_env (Some (JNum 7))
     = (\<lparr>exists = False, status = 0, title = None, preview = None\<rparr>, [])"
proof -
  let ?gone = "HttpResponse 404 (Inr ''Not Found'')"
  let ?err = "FetchError ''timed out''"
  have sw: "startsWith ''https://gone.org'' ''http''" "startsWith ''http://slow.example'' ''http''"
    "\<not> startsWith ''ftp://example.com'' ''http''"
    by (simp_all add: startsWith_def)
  have nok: "\<not> resp_ok ?gone" by (simp add: resp_ok_def)
  have f1: "fetch_page sample_env ''https://gone.org'' = Inr ?gone"
    by (simp add: sample_env_def)
  have f2: "fetch_page sample_env ''http://slow.example'' = Inl ?err"
    by (simp add: sample_env_def)
  have t: "checkUrl_try sample_env (Some (JNum 7)) = (Inl TypeError, [])"
    by (simp add: checkUrl_try_def)
  have a: "checkUrl sample_env (Some (JStr ''unknown''))
     = (\<lparr>exists = False, status = 0, title = None, preview = None\<rparr>, [])"
    using checkUrl_total_no_throw [where url = "Some (JStr ''unknown'')" and env = sample_env
            and u = "[]" and r = ?gone and e = ?err and requests = "[]", THEN conjunct1]
    by simp
  have a': "checkUrl sample_env (Some (JStr ''ftp://example.com''))
     = (\<lparr>exists = False, status = 0, title = None, preview = None\<rparr>, [])"
    using checkUrl_total_no_throw [where url = "Some (JStr ''ftp://example.com'')"
            and env = sample_env and u = "[]" and r = ?gone and e = ?err and requests = "[]",
            THEN conjunct1] sw(3)
    by simp
  have b: "checkUrl sample_env (Some (JStr ''https://gone.org''))
     = (\<lparr>exists = False, status = 404, title = None, preview = None\<rparr>, [''https://gone.org''])"
    using checkUrl_total_no_throw [where url = "Some (JStr ''https://gone.org'')"
            and env = sample_env and u = "''https://gone.org''" and r = ?gone and e = ?err
            and requests = "[]", THEN conjunct2, THEN conjunct1] sw(1) nok f1
    by simp
  have c: "checkUrl sample_env (Some (JStr ''http://slow.example''))
     = (\<lparr>exists = False, status = 0, title = None, preview = None\<rparr>, [''http://slow.example''])"
    using checkUrl_total_no_throw [where url = "Some (JStr ''http://slow.example'')"
            and env = sample_env and u = "''http://slow.example''" and r = ?gone and e = ?err
            and requests = "[]", THEN conjunct2, THEN conjunct2, THEN conjunct1] sw(2) f2
    by simp
  have d: "checkUrl sample_env (Some (JNum 7))
     = (\<lparr>exists = False, status = 0, title = None, preview = None\<rparr>, [])"
    using checkUrl_total_no_throw [where url = "Some (JNum 7)"
            and env = sample_env and u = "[]" and r = ?gone and e = TypeError
            and requests = "[]", THEN conjunct2, THEN conjunct2, THEN conjunct2, THEN conjunct1] t
    by simp
  show ?thesis by (intro conjI a a' b c d)
qed

section \<open>Properties of the Citation Re-verifier\<close>

lemma map_of_set_field: "map_of (set_field k v kvs) = (map_of kvs)(k := v)"
  by (cases v) (auto simp: fun_eq_iff update_conv delete_conv)

lemma map_result_all_Inr:
  "\<forall>x \<in> set xs. \<exists>y. f x = Inr y \<Longrightarrow>
     \<exists>ys. map_result f xs = Inr ys \<and> length ys = length xs
          \<and> (\<forall>i < length xs. f (xs ! i) = Inr (ys ! i))"
proof (induction xs)
  case Nil
  then show ?case by simp
next
  case (Cons x xs)
  then obtain y where y: "f x = Inr y" by auto
  from Cons obtain ys where ys: "map_result f xs = Inr ys" "length ys = length xs"
    "\<forall>i < length xs. f (xs ! i) = Inr (ys ! i)" by auto
  have "map_result f (x # xs) = Inr (y # ys)" using y ys by (simp add: bind_result_def)
  moreover have "\<forall>i < length (x # xs). f ((x # xs) ! i) = Inr ((y # ys) ! i)"
    using y ys by (auto simp: nth_Cons split: nat.splits)
  ultimately show ?case using ys by auto
qed

lemma verifyCitation_object:
  "verifyCitation env (JObj c) =
     Inr (JObj
       (set_field ''contentPreview'' (map_option JStr (preview (fst (checkUrl env (map_of c ''url'')))))
       (set_field ''pageTitle'' (map_option JStr (title (fst (checkUrl env (map_of c ''url'')))))
       (set_field ''httpStatus'' (Some (JNum (of_nat (status (fst (checkUrl env (map_of c ''url'')))))))
       (set_field ''verified'' (Some (JBool True))
       (set_field ''reason''
          (snd (reconcile (map_of c ''status'') (map_of c ''reason'')
                  (fst (checkUrl env (map_of c ''url'')))))
       (set_field ''status''
          (fst (reconcile (map_of c ''status'') (map_of c ''reason'')
                  (fst (checkUrl env (map_of c ''url'')))))
          c)))))))"
  by (simp add: verifyCitation_def bind_result_def Let_def case_prod_beta)

lemma verifyCitation_object_ex: "\<exists>y. verifyCitation env (JObj c) = Inr y"
  by (simp add: verifyCitation_object)

lemma verifyCitation_field:
  assumes "verifyCitation env (JObj c) = Inr out"
  shows "opt_prop (Some out) k =
     (if k = ''contentPreview'' then map_option JStr (preview (fst (checkUrl env (map_of c ''url''))))
      else if k = ''pageTitle'' then map_option JStr (title (fst (checkUrl env (map_of c ''url''))))
      else if k = ''httpStatus'' then Some (JNum (of_nat (status (fst (checkUrl env (map_of c ''url''))))))
      else if k = ''verified'' then Some (JBool True)
      else if k = ''reason'' then
        snd (reconcile (map_of c ''status'') (map_of c ''reason'') (fst (checkUrl env (map_of c ''url''))))
      else if k = ''status'' then
        fst (reconcile (map_of c ''status'') (map_of c ''reason'') (fst (checkUrl env (map_of c ''url''))))
      else map_of c k)"
proof -
  from assms have "out = JObj
       (set_field ''contentPreview'' (map_option JStr (preview (fst (checkUrl env (map_of c ''url'')))))
       (set_field ''pageTitle'' (map_option JStr (title (fst (checkUrl env (map_of c ''url'')))))
       (set_field ''httpStatus'' (Some (JNum (of_nat (status (fst (checkUrl env (map_of c ''url'')))))))
       (set_field ''verified'' (Some (JBool True))
       (set_field ''reason''
          (snd (reconcile (map_of c ''status'') (map_of c ''reason'')
                  (fst (checkUrl env (map_of c ''url'')))))
       (set_field ''status''
          (fst (reconcile (map_of c ''status'') (map_of c ''reason'')
                  (fst (checkUrl env (map_of c ''url'')))))
          c))))))"
    unfolding verifyCitation_object by simp
  then show ?thesis
    by (simp only: opt_prop.simps map_of_set_field fun_upd_apply)
qed

lemma verifyCitations_objects:
  assumes "method \<noteq> ''OPTIONS''"
    and "get_prop (Some reqBody) ''citations'' = Inr (Some (JArr cs))"
    and "\<forall>c \<in> set cs. \<exists>kvs. c = JObj kvs"
  shows "\<exists>out. verifyCitations env method (Inr reqBody) = Json 200 (JObj [(''citations'', JArr out)])
           \<and> length out = length cs
           \<and> (\<forall>i < length cs. verifyCitation env (cs ! i) = Inr (out ! i))"
proof -
  have "\<forall>c \<in> set cs. \<exists>y. verifyCitation env c = Inr y"
  proof
    fix c assume "c \<in> set cs"
    with assms(3) obtain kvs where "c = JObj kvs" by blast
    then show "\<exists>y. verifyCitation env c = Inr y" using verifyCitation_object_ex by simp
  qed
  from map_result_all_Inr [OF this] obtain out where
    out: "map_result (verifyCitation env) cs = Inr out" "length out = length cs"
      "\<forall>i < length cs. verifyCitation env (cs ! i) = Inr (out ! i)" by blast
  have "verifyCitations env method (Inr reqBody) = Json 200 (JObj [(''citations'', JArr out)])"
    using assms(1,2) out(1) by (simp add: verifyCitations_def bind_result_def)
  with out show ?thesis by blast
qed

lemma reconcile_idem:
  "exists r2 = exists r1 \<Longrightarrow>
     fst (reconcile (fst (reconcile st rs r1)) rs' r2) = fst (reconcile st rs r1)"
  by (simp add: reconcile_def)

lemma sample_citations_objects: "\<forall>c \<in> set sample_citations. \<exists>kvs. c = JObj kvs"
  by (simp add: sample_citations_def)

lemma verifyCitation_object_result:
  "verifyCitation env (JObj c) = Inr out \<Longrightarrow> \<exists>d. out = JObj d"
  by (auto simp: verifyCitation_object)

text \<open>
  Claim C5. Re-verification reconciles one way only. A citation whose prior status is
  \<open>broken\<close> and whose probe is reachable becomes \<open>valid\<close> with the reason
  \<^verbatim>\<open>URL is accessible. Page title: "<title or Unknown>"\<close>; one whose prior status is
  \<open>valid\<close> and whose probe is unreachable becomes \<open>broken\<close> with the reason
  \<^verbatim>\<open>URL returned HTTP <code>\<close> for a nonzero code and
  \<^verbatim>\<open>URL is not accessible or does not exist\<close> otherwise; in every other case, a prior
  status \<open>fake\<close> with a reachable URL included, status and reason are unchanged.
\<close>

theorem reverify_reconciles:
  assumes "r = fst (checkUrl env (map_of c ''url''))"
  shows "\<exists>out. verifyCitation env (JObj c) = Inr out
     \<and> (map_of c ''status'' = Some (JStr ''broken'') \<and> exists r
          \<longrightarrow> opt_prop (Some out) ''status'' = Some (JStr ''valid'')
              \<and> opt_prop (Some out) ''reason''
                  = Some (JStr (''URL is accessible. Page title: \"''
                                @ (case title r of
                                     None \<Rightarrow> ''Unknown''
                                   | Some t \<Rightarrow> if t = [] then ''Unknown'' else t)
                                @ ''\"'')))
     \<and> (map_of c ''status'' = Some (JStr ''valid'') \<and> \<not> exists r \<and> status r \<noteq> 0
          \<longrightarrow> opt_prop (Some out) ''status'' = Some (JStr ''broken'')
              \<and> opt_prop (Some out) ''reason''
                  = Some (JStr (''URL returned HTTP '' @ show_nat (status r))))
     \<and> (map_of c ''status'' = Some (JStr ''valid'') \<and> \<not> exists r \<and> status r = 0
          \<longrightarrow> opt_prop (Some out) ''status'' = Some (JStr ''broken'')
              \<and> opt_prop (Some out) ''reason''
                  = Some (JStr ''URL is not accessible or does not exist''))
     \<and> (\<not> (map_of c ''status'' = Some (JStr ''broken'') \<and> exists r)
          \<and> \<not> (map_of c ''status'' = Some (JStr ''valid'') \<and> \<not> exists r)
          \<longrightarrow> opt_prop (Some out) ''status'' = map_of c ''status''
              \<and> opt_prop (Some out) ''reason'' = map_of c ''reason'')
     \<and> (map_of c ''status'' = Some (JStr ''fake'')
          \<longrightarrow> opt_prop (Some out) ''status'' = Some (JStr ''fake'')
              \<and> opt_prop (Some out) ''reason'' = map_of c ''reason'')"
proof -
  obtain out where out: "verifyCitation env (JObj c) = Inr out"
    using verifyCitation_object_ex by blast
  have st: "opt_prop (Some out) ''status''
              = fst (reconcile (map_of c ''status'') (map_of c ''reason'') r)"
    using verifyCitation_field [OF out, of "''status''"] assms by simp
  have rs: "opt_prop (Some out) ''reason''
              = snd (reconcile (map_of c ''status'') (map_of c ''reason'') r)"
    using verifyCitation_field [OF out, of "''reason''"] assms by simp
  have "(map_of c ''status'' = Some (JStr ''broken'') \<and> exists r
          \<longrightarrow> opt_prop (Some out) ''status'' = Some (JStr ''valid'')
              \<and> opt_prop (Some out) ''reason''
                  = Some (JStr (''URL is accessible. Page title: \"''
                                @ (case title r of
                                     None \<Rightarrow> ''Unknown''
                                   | Some t \<Rightarrow> if t = [] then ''Unknown'' else t)
                                @ ''\"'')))"
    unfolding st rs by (simp add: reconcile_def)
  moreover have "(map_of c ''status'' = Some (JStr ''valid'') \<and> \<not> exists r \<and> status r \<noteq> 0
          \<longrightarrow> opt_prop (Some out) ''status'' = Some (JStr ''broken'')
              \<and> opt_prop (Some out) ''reason''
                  = Some (JStr (''URL returned HTTP '' @ show_nat (status r))))"
    unfolding st rs by (simp add: reconcile_def)
  moreover have "(map_of c ''status'' = Some (JStr ''valid'') \<and> \<not> exists r \<and> status r = 0
          \<longrightarrow> opt_prop (Some out) ''status'' = Some (JStr ''broken'')
              \<and> opt_prop (Some out) ''reason''
                  = Some (JStr ''URL is not accessible or does not exist''))"
    unfolding st rs by (simp add: reconcile_def)
  moreover have "(\<not> (map_of c ''status'' = Some (JStr ''broken'') \<and> exists r)
          \<and> \<not> (map_of c ''status'' = Some (JStr ''valid'') \<and> \<not> exists r)
          \<longrightarrow> opt_prop (Some out) ''status'' = map_of c ''status''
              \<and> opt_prop (Some out) ''reason'' = map_of c ''reason'')"
    unfolding st rs by (simp add: reconcile_def)
  moreover have "(map_of c ''status'' = Some (JStr ''fake'')
          \<longrightarrow> opt_prop (Some out) ''status'' = Some (JStr ''fake'')
              \<and> opt_prop (Some out) ''reason'' = map_of c ''reason'')"
    unfolding st rs by (simp add: reconcile_def)
  ultimately show ?thesis using out by blast
qed

text \<open>The four sample citations: broken and reachable, valid with the sentinel URL, valid and
  answering 404, fake and reachable.\<close>

theorem reverify_reconciles_witness:
  "(\<exists>out. verifyCitation sample_env (sample_citations ! 0) = Inr out
      \<and> opt_prop (Some out) ''status'' = Some (JStr ''valid'')
      \<and> opt_prop (Some out) ''reason''
           = Some (JStr ''URL is accessible. Page title: \"Example Domain\"''))
   \<and> (\<exists>out. verifyCitation sample_env (sample_citations ! 1) = Inr out
      \<and> opt_prop (Some out) ''status'' = Some (JStr ''broken'')
      \<and> opt_prop (Some out) ''reason'' = Some (JStr ''URL is not accessible or does not exist''))
   \<and> (\<exists>out. verifyCitation sample_env (sample_citations ! 2) = Inr out
      \<and> opt_prop (Some out) ''status'' = Some (JStr ''broken'')
      \<and> opt_prop (Some out) ''reason'' = Some (JStr ''URL returned HTTP 404''))
   \<and> (\<exists>out. verifyCitation sample_env (sample_citations ! 3) = Inr out
      \<and> opt_prop (Some out) ''status'' = Some (JStr ''fake'')
      \<and> opt_prop (Some out) ''reason'' = Some (JStr ''No such journal''))"
proof -
  have r0: "fst (checkUrl sample_env (Some (JStr ''https://example.com'')))
              = \<lparr>exists = True, status = 200, title = Some ''Example Domain'',
                  preview = Some ''Example Domain''\<rparr>"
    by (simp add: checkUrl_def checkUrl_try_def sample_env_def startsWith_def resp_ok_def)
  have r1: "fst (checkUrl sample_env (Some (JStr ''unknown''))) = rejected"
    by (simp add: checkUrl_def checkUrl_try_def)
  have r2: "fst (checkUrl sample_env (Some (JStr ''https://gone.org'')))
              = \<lparr>exists = False, status = 404, title = None, preview = None\<rparr>"
    by (simp add: checkUrl_def checkUrl_try_def sample_env_def startsWith_def resp_ok_def)
  have n: "show_nat 404 = ''404''" by code_simp
  have c0: "sample_citations ! 0 = JObj [(''source'', JStr ''Example''),
      (''url'', JStr ''https://example.com''), (''status'', JStr ''broken''),
      (''reason'', JStr ''Link did not resolve'')]"
    and c1: "sample_citations ! 1 = JObj [(''source'', JStr ''Memo''), (''url'', JStr ''unknown''),
            (''status'', JStr ''valid''), (''reason'', JStr ''Cited in text'')]"
    and c2: "sample_citations ! 2 = JObj [(''source'', JStr ''Gone''), (''url'', JStr ''https://gone.org''),
            (''status'', JStr ''valid''), (''reason'', JStr ''Cited in text'')]"
    and c3: "sample_citations ! 3 = JObj [(''source'', JStr ''Journal of Nothing''),
            (''url'', JStr ''https://example.com''),
            (''status'', JStr ''fake''), (''reason'', JStr ''No such journal'')]"
    by (simp_all add: sample_citations_def)
  have a: "\<exists>out. verifyCitation sample_env (sample_citations ! 0) = Inr out
      \<and> opt_prop (Some out) ''status'' = Some (JStr ''valid'')
      \<and> opt_prop (Some out) ''reason''
           = Some (JStr ''URL is accessible. Page title: \"Example Domain\"'')"
    unfolding c0
    using reverify_reconciles [OF refl, of sample_env "[(''source'', JStr ''Example''),
      (''url'', JStr ''https://example.com''), (''status'', JStr ''broken''),
      (''reason'', JStr ''Link did not resolve'')]"]
    by (simp add: r0)
  have b: "\<exists>out. verifyCitation sample_env (sample_citations ! 1) = Inr out
      \<and> opt_prop (Some out) ''status'' = Some (JStr ''broken'')
      \<and> opt_prop (Some out) ''reason'' = Some (JStr ''URL is not accessible or does not exist'')"
    unfolding c1
    using reverify_reconciles [OF refl, of sample_env "[(''source'', JStr ''Memo''),
            (''url'', JStr ''unknown''),
            (''status'', JStr ''valid''), (''reason'', JStr ''Cited in text'')]"]
    by (simp add: r1 rejected_def)
  have c: "\<exists>out. verifyCitation sample_env (sample_citations ! 2) = Inr out
      \<and> opt_prop (Some out) ''status'' = Some (JStr ''broken'')
      \<and> opt_prop (Some out) ''reason'' = Some (JStr ''URL returned HTTP 404'')"
    unfolding c2
    using reverify_reconciles [OF refl, of sample_env "[(''source'', JStr ''Gone''),
            (''url'', JStr ''https://gone.org''),
            (''status'', JStr ''valid''), (''reason'', JStr ''Cited in text'')]"]
    by (simp add: r2 n)
  have d: "\<exists>out. verifyCitation sample_env (sample_citations ! 3) = Inr out
      \<and> opt_prop (Some out) ''status'' = Some (JStr ''fake'')
      \<and> opt_prop (Some out) ''reason'' = Some (JStr ''No such journal'')"
    unfolding c3
    using reverify_reconciles [OF refl, of sample_env "[(''source'', JStr ''Journal of Nothing''),
            (''url'', JStr ''https://example.com''),
            (''status'', JStr ''fake''), (''reason'', JStr ''No such journal'')]"]
    by (simp add: r0)
  show ?thesis by (intro conjI a b c d)
qed

text \<open>
  Claim C7, as amended. On a list of citation objects the re-verifier replies with a list
  of the same length, element \<open>i\<close> being the re-verification of input \<open>i\<close>. Every
  element has \<open>verified = true\<close>; \<open>httpStatus\<close>, \<open>pageTitle\<close> and
  \<open>contentPreview\<close> are those of the fresh probe (absent where the probe has none),
  replacing whatever the input carried under these keys; every field other than
  \<open>status\<close>, \<open>reason\<close> and these four is the field of the input citation,
  \<open>source\<close> and \<open>url\<close> in particular.
\<close>

theorem reverify_frame:
  assumes "method \<noteq> ''OPTIONS''"
    and "get_prop (Some reqBody) ''citations'' = Inr (Some (JArr cs))"
    and "\<forall>c \<in> set cs. \<exists>kvs. c = JObj kvs"
  shows "\<exists>out. verifyCitations env method (Inr reqBody) = Json 200 (JObj [(''citations'', JArr out)])
     \<and> length out = length cs
     \<and> (\<forall>i < length cs.
           verifyCitation env (cs ! i) = Inr (out ! i)
         \<and> opt_prop (Some (out ! i)) ''verified'' = Some (JBool True)
         \<and> opt_prop (Some (out ! i)) ''httpStatus''
             = Some (JNum (of_nat (status (fst (checkUrl env (opt_prop (Some (cs ! i)) ''url''))))))
         \<and> opt_prop (Some (out ! i)) ''pageTitle''
             = map_option JStr (title (fst (checkUrl env (opt_prop (Some (cs ! i)) ''url''))))
         \<and> opt_prop (Some (out ! i)) ''contentPreview''
             = map_option JStr (preview (fst (checkUrl env (opt_prop (Some (cs ! i)) ''url''))))
         \<and> opt_prop (Some (out ! i)) ''source'' = opt_prop (Some (cs ! i)) ''source''
         \<and> opt_prop (Some (out ! i)) ''url'' = opt_prop (Some (cs ! i)) ''url''
         \<and> (\<forall>k. k \<notin> {''status'', ''reason'', ''verified'', ''httpStatus'', ''pageTitle'',
                       ''contentPreview''}
                \<longrightarrow> opt_prop (Some (out ! i)) k = opt_prop (Some (cs ! i)) k))"
proof -
  from verifyCitations_objects [OF assms] obtain out where
    out: "verifyCitations env method (Inr reqBody) = Json 200 (JObj [(''citations'', JArr out)])"
      "length out = length cs"
      "\<forall>i < length cs. verifyCitation env (cs ! i) = Inr (out ! i)" by blast
  have "verifyCitation env (cs ! i) = Inr (out ! i)
         \<and> opt_prop (Some (out ! i)) ''verified'' = Some (JBool True)
         \<and> opt_prop (Some (out ! i)) ''httpStatus''
             = Some (JNum (of_nat (status (fst (checkUrl env (opt_prop (Some (cs ! i)) ''url''))))))
         \<and> opt_prop (Some (out ! i)) ''pageTitle''
             = map_option JStr (title (fst (checkUrl env (opt_prop (Some (cs ! i)) ''url''))))
         \<and> opt_prop (Some (out ! i)) ''contentPreview''
             = map_option JStr (preview (fst (checkUrl env (opt_prop (Some (cs ! i)) ''url''))))
         \<and> opt_prop (Some (out ! i)) ''source'' = opt_prop (Some (cs ! i)) ''source''
         \<and> opt_prop (Some (out ! i)) ''url'' = opt_prop (Some (cs ! i)) ''url''
         \<and> (\<forall>k. k \<notin> {''status'', ''reason'', ''verified'', ''httpStatus'', ''pageTitle'',
                       ''contentPreview''}
                \<longrightarrow> opt_prop (Some (out ! i)) k = opt_prop (Some (cs ! i)) k)"
    if i: "i < length cs" for i
  proof -
    from i assms(3) obtain c where c: "cs ! i = JObj c" by (meson nth_mem)
    from out(3) i have v0: "verifyCitation env (cs ! i) = Inr (out ! i)" by blast
    then have v: "verifyCitation env (JObj c) = Inr (out ! i)" unfolding c .
    note f = verifyCitation_field [OF v]
    have 1: "opt_prop (Some (out ! i)) ''verified'' = Some (JBool True)"
      using f [of "''verified''"] by simp
    have 2: "opt_prop (Some (out ! i)) ''source'' = opt_prop (Some (cs ! i)) ''source''"
      using f [of "''source''"] c by simp
    have 3: "opt_prop (Some (out ! i)) ''url'' = opt_prop (Some (cs ! i)) ''url''"
      using f [of "''url''"] c by simp
    have 4: "\<forall>k. k \<notin> {''status'', ''reason'', ''verified'', ''httpStatus'', ''pageTitle'',
                       ''contentPreview''}
                \<longrightarrow> opt_prop (Some (out ! i)) k = opt_prop (Some (cs ! i)) k"
      using f c by simp
    have 5: "opt_prop (Some (out ! i)) ''httpStatus''
             = Some (JNum (of_nat (status (fst (checkUrl env (opt_prop (Some (cs ! i)) ''url''))))))"
      using f [of "''httpStatus''"] c by simp
    have 6: "opt_prop (Some (out ! i)) ''pageTitle''
             = map_option JStr (title (fst (checkUrl env (opt_prop (Some (cs ! i)) ''url''))))"
      using f [of "''pageTitle''"] c by simp
    have 7: "opt_prop (Some (out ! i)) ''contentPreview''
             = map_option JStr (preview (fst (checkUrl env (opt_prop (Some (cs ! i)) ''url''))))"
      using f [of "''contentPreview''"] c by simp
    show ?thesis by (intro conjI v0 1 2 3 4 5 6 7)
  qed
  with out(1,2) show ?thesis by blast
qed

text \<open>The reply for the four sample citations.\<close>

theorem reverify_frame_witness:
  "\<exists>out. verifyCitations sample_env ''POST'' (Inr (JObj [(''citations'', JArr sample_citations)]))
            = Json 200 (JObj [(''citations'', JArr out)])
     \<and> length out = 4
     \<and> opt_prop (Some (out ! 0)) ''verified'' = Some (JBool True)
     \<and> opt_prop (Some (out ! 0)) ''source'' = Some (JStr ''Example'')
     \<and> opt_prop (Some (out ! 3)) ''verified'' = Some (JBool True)
     \<and> opt_prop (Some (out ! 3)) ''url'' = Some (JStr ''https://example.com'')"
proof -
  have m: "''POST'' \<noteq> ''OPTIONS''" by simp
  have g: "get_prop (Some (JObj [(''citations'', JArr sample_citations)])) ''citations''
             = Inr (Some (JArr sample_citations))" by simp
  from reverify_frame [OF m g sample_citations_objects, of sample_env]
  obtain out where out:
    "verifyCitations sample_env ''POST'' (Inr (JObj [(''citations'', JArr sample_citations)]))
       = Json 200 (JObj [(''citations'', JArr out)])"
    "length out = length sample_citations"
    "\<forall>i < length sample_citations.
        opt_prop (Some (out ! i)) ''verified'' = Some (JBool True)
      \<and> opt_prop (Some (out ! i)) ''source'' = opt_prop (Some (sample_citations ! i)) ''source''
      \<and> opt_prop (Some (out ! i)) ''url'' = opt_prop (Some (sample_citations ! i)) ''url''"
    by blast
  have l: "length sample_citations = 4" by (simp add: sample_citations_def)
  have s0: "opt_prop (Some (sample_citations ! 0)) ''source'' = Some (JStr ''Example'')"
    and s3: "opt_prop (Some (sample_citations ! 3)) ''url'' = Some (JStr ''https://example.com'')"
    by (simp_all add: sample_citations_def)
  from out(3) l have "opt_prop (Some (out ! 0)) ''verified'' = Some (JBool True)"
    "opt_prop (Some (out ! 0)) ''source'' = opt_prop (Some (sample_citations ! 0)) ''source''"
    "opt_prop (Some (out ! 3)) ''verified'' = Some (JBool True)"
    "opt_prop (Some (out ! 3)) ''url'' = opt_prop (Some (sample_citations ! 3)) ''url''"
    by simp_all
  with out(1,2) l s0 s3 show ?thesis by auto
qed

text \<open>
  Claim C7 as stated fails on a citation that was re-verified before: its
  \<open>httpStatus\<close> is a field other than \<open>status\<close> and \<open>reason\<close>, and it is
  replaced (200 becomes 404), while its \<open>pageTitle\<close> is dropped.
\<close>

theorem reverify_frame_counterexample:
  "verifyCitations sample_env ''POST''
     (Inr (JObj [(''citations'',
        JArr [JObj [(''source'', JStr ''Gone''), (''url'', JStr ''https://gone.org''),
                    (''status'', JStr ''valid''), (''reason'', JStr ''Cited in text''),
                    (''verified'', JBool True), (''httpStatus'', JNum 200),
                    (''pageTitle'', JStr ''Gone but not forgotten'')]])]))
   = Json 200
       (JObj [(''citations'',
          JArr [JObj [(''source'', JStr ''Gone''), (''url'', JStr ''https://gone.org''),
                      (''status'', JStr ''broken''), (''reason'', JStr ''URL returned HTTP 404''),
                      (''verified'', JBool True), (''httpStatus'', JNum 404)]])])"
  by code_simp

text \<open>
  Claim C8. Re-verifying the output of a re-verification leaves every status as the first
  run set it, provided each URL's probe gives the same reachability and HTTP code on both
  runs.
\<close>

theorem reverify_status_idempotent:
  assumes "method \<noteq> ''OPTIONS''"
    and "\<forall>c \<in> set cs. \<exists>kvs. c = JObj kvs"
    and "\<forall>c \<in> set cs.
           exists (fst (checkUrl env2 (opt_prop (Some c) ''url'')))
             = exists (fst (checkUrl env1 (opt_prop (Some c) ''url'')))
         \<and> status (fst (checkUrl env2 (opt_prop (Some c) ''url'')))
             = status (fst (checkUrl env1 (opt_prop (Some c) ''url'')))"
  shows "\<exists>out1 out2.
       verifyCitations env1 method (Inr (JObj [(''citations'', JArr cs)]))
         = Json 200 (JObj [(''citations'', JArr out1)])
     \<and> verifyCitations env2 method (Inr (JObj [(''citations'', JArr out1)]))
         = Json 200 (JObj [(''citations'', JArr out2)])
     \<and> length out1 = length cs \<and> length out2 = length cs
     \<and> (\<forall>i < length cs.
           opt_prop (Some (out2 ! i)) ''status'' = opt_prop (Some (out1 ! i)) ''status'')"
proof -
  have g: "get_prop (Some (JObj [(''citations'', JArr xs)])) ''citations'' = Inr (Some (JArr xs))"
    for xs by simp
  from verifyCitations_objects [OF assms(1) g assms(2), of env1] obtain out1 where
    out1: "verifyCitations env1 method (Inr (JObj [(''citations'', JArr cs)]))
             = Json 200 (JObj [(''citations'', JArr out1)])"
      "length out1 = length cs"
      "\<forall>i < length cs. verifyCitation env1 (cs ! i) = Inr (out1 ! i)" by blast
  have obj1: "\<forall>c \<in> set out1. \<exists>kvs. c = JObj kvs"
  proof
    fix c assume "c \<in> set out1"
    then obtain i where i: "i < length out1" "c = out1 ! i" by (auto simp: in_set_conv_nth)
    with out1(2) assms(2) obtain kvs where kvs: "cs ! i = JObj kvs" by (metis nth_mem)
    from out1(3) i out1(2) have "verifyCitation env1 (cs ! i) = Inr (out1 ! i)" by simp
    then have "verifyCitation env1 (JObj kvs) = Inr c" unfolding kvs i(2) .
    then show "\<exists>kvs. c = JObj kvs" by (rule verifyCitation_object_result)
  qed
  from verifyCitations_objects [OF assms(1) g obj1, of env2] obtain out2 where
    out2: "verifyCitations env2 method (Inr (JObj [(''citations'', JArr out1)]))
             = Json 200 (JObj [(''citations'', JArr out2)])"
      "length out2 = length out1"
      "\<forall>i < length out1. verifyCitation env2 (out1 ! i) = Inr (out2 ! i)" by blast
  have "opt_prop (Some (out2 ! i)) ''status'' = opt_prop (Some (out1 ! i)) ''status''"
    if i: "i < length cs" for i
  proof -
    from i assms(2) obtain c where c: "cs ! i = JObj c" by (meson nth_mem)
    from i out1(2) obj1 obtain d where d: "out1 ! i = JObj d" by (metis nth_mem)
    from out1(3) i have "verifyCitation env1 (cs ! i) = Inr (out1 ! i)" by blast
    then have v1: "verifyCitation env1 (JObj c) = Inr (JObj d)" unfolding c d .
    from out2(3) i out1(2) have "verifyCitation env2 (out1 ! i) = Inr (out2 ! i)" by simp
    then have v2: "verifyCitation env2 (JObj d) = Inr (out2 ! i)" unfolding d .
    let ?r1 = "fst (checkUrl env1 (map_of c ''url''))"
    let ?r2 = "fst (checkUrl env2 (map_of c ''url''))"
    have url: "map_of d ''url'' = map_of c ''url''"
      using verifyCitation_field [OF v1, of "''url''"] by simp
    have st1: "map_of d ''status'' = fst (reconcile (map_of c ''status'') (map_of c ''reason'') ?r1)"
      using verifyCitation_field [OF v1, of "''status''"] by simp
    have st2: "opt_prop (Some (out2 ! i)) ''status''
                 = fst (reconcile (map_of d ''status'') (map_of d ''reason'') ?r2)"
      using verifyCitation_field [OF v2, of "''status''"] url by simp
    from i have "cs ! i \<in> set cs" by simp
    with assms(3) have "exists (fst (checkUrl env2 (opt_prop (Some (cs ! i)) ''url'')))
             = exists (fst (checkUrl env1 (opt_prop (Some (cs ! i)) ''url'')))" by blast
    then have "exists ?r2 = exists ?r1" unfolding c by simp
    then have "fst (reconcile (fst (reconcile (map_of c ''status'') (map_of c ''reason'') ?r1))
                    (map_of d ''reason'') ?r2)
                 = fst (reconcile (map_of c ''status'') (map_of c ''reason'') ?r1)"
      by (rule reconcile_idem)
    then have "opt_prop (Some (out2 ! i)) ''status'' = map_of d ''status''"
      unfolding st2 st1 .
    then show ?thesis unfolding d by simp
  qed
  then have "\<forall>i < length cs.
           opt_prop (Some (out2 ! i)) ''status'' = opt_prop (Some (out1 ! i)) ''status''" by blast
  moreover have "length out2 = length cs" using out1(2) out2(2) by simp
  ultimately show ?thesis using out1(1,2) out2(1) by blast
qed

text \<open>Two runs over the sample citations on the same network.\<close>

theorem reverify_status_idempotent_witness:
  "\<exists>out1 out2.
       verifyCitations sample_env ''POST'' (Inr (JObj [(''citations'', JArr sample_citations)]))
         = Json 200 (JObj [(''citations'', JArr out1)])
     \<and> verifyCitations sample_env ''POST'' (Inr (JObj [(''citations'', JArr out1)]))
         = Json 200 (JObj [(''citations'', JArr out2)])
     \<and> length out1 = 4 \<and> length out2 = 4
     \<and> (\<forall>i < 4. opt_prop (Some (out2 ! i)) ''status'' = opt_prop (Some (out1 ! i)) ''status'')"
proof -
  have m: "''POST'' \<noteq> ''OPTIONS''" by simp
  have l: "length sample_citations = 4" by (simp add: sample_citations_def)
  have same: "\<forall>c \<in> set sample_citations.
           exists (fst (checkUrl sample_env (opt_prop (Some c) ''url'')))
             = exists (fst (checkUrl sample_env (opt_prop (Some c) ''url'')))
         \<and> status (fst (checkUrl sample_env (opt_prop (Some c) ''url'')))
             = status (fst (checkUrl sample_env (opt_prop (Some c) ''url'')))" by simp
  from reverify_status_idempotent [OF m sample_citations_objects same]
  show ?thesis unfolding l .
qed

section \<open>Properties of the Result Merger\<close>

lemma callBackend_failed:
  "(\<exists>e. outcome = Inl e)
     \<or> (\<exists>r. outcome = Inr r \<and> (\<not> resp_ok r \<or> (\<exists>e. resp_json JSON_parse r = Inl e)))
   \<Longrightarrow> fst (callBackend JSON_parse outcome) = JNull"
  by (auto simp: callBackend_def split: sum.splits)

lemma mergeResults_fallback:
  "\<exists>msg. mergeResults JNull backendError aiResult =
     Inr (JObj [
          (''error'', JStr msg),
          (''trustScore'', JNum 0),
          (''claims'', JArr []),
          (''citations'', JArr []),
          (''hallucinationRisk'',
             or_default (opt_prop (Some aiResult) ''hallucinationRisk'') (JStr ''Unknown'')),
          (''hallucinationRiskReason'',
             or_default (opt_prop (Some aiResult) ''hallucinationRiskReason'')
               (JStr ''Backend verification required'')),
          (''analysisSummary'',
             or_default (opt_prop (Some aiResult) ''analysisSummary'')
               (JStr ''Unable to verify without backend'')),
          (''source'', JStr ''ai-only-fallback'')])"
  by (simp add: mergeResults_def)

text \<open>
  Claim C1. When the call of the factual backend fails (the fetch rejects, the status is
  outside 2xx, or the body does not read or parse), a request that reaches the merge is
  answered with \<open>trustScore = 0\<close>, \<open>claims = []\<close>, \<open>citations = []\<close> and
  \<open>source = "ai-only-fallback"\<close>, whatever the outcome of the AI gateway call; the AI
  result's risk and summary fields are passed on where they are truthy, the risk
  defaulting to \<open>"Unknown"\<close>. (A request reaches the merge when it carries a non-empty
  text and the gateway key is configured.)
\<close>

theorem merge_fallback_on_backend_failure:
  assumes "method \<noteq> ''OPTIONS''"
    and "get_prop (Some reqBody) ''text'' = Inr (Some (JStr t))" and "t \<noteq> []"
    and "LOVABLE_API_KEY = Some key" and "key \<noteq> []"
    and "(\<exists>e. backend t = Inl e)
         \<or> (\<exists>r. backend t = Inr r \<and> (\<not> resp_ok r \<or> (\<exists>e. resp_json JSON_parse r = Inl e)))"
  shows "\<exists>body msg.
       verifyContent JSON_parse method (Inr reqBody) backend LOVABLE_API_KEY gateway
         = Json 200 body
     \<and> opt_prop (Some body) ''trustScore'' = Some (JNum 0)
     \<and> opt_prop (Some body) ''claims'' = Some (JArr [])
     \<and> opt_prop (Some body) ''citations'' = Some (JArr [])
     \<and> opt_prop (Some body) ''source'' = Some (JStr ''ai-only-fallback'')
     \<and> opt_prop (Some body) ''error'' = Some (JStr msg)
     \<and> opt_prop (Some body) ''hallucinationRisk''
         = Some (or_default (opt_prop (Some (callAi JSON_parse (gateway t))) ''hallucinationRisk'')
                   (JStr ''Unknown''))
     \<and> opt_prop (Some body) ''hallucinationRiskReason''
         = Some (or_default
                   (opt_prop (Some (callAi JSON_parse (gateway t))) ''hallucinationRiskReason'')
                   (JStr ''Backend verification required''))
     \<and> opt_prop (Some body) ''analysisSummary''
         = Some (or_default (opt_prop (Some (callAi JSON_parse (gateway t))) ''analysisSummary'')
                   (JStr ''Unable to verify without backend''))"
proof -
  obtain br be where cb: "callBackend JSON_parse (backend t) = (br, be)" by (cases "callBackend JSON_parse (backend t)")
  from callBackend_failed [OF assms(6)] cb have br: "br = JNull" by simp
  from mergeResults_fallback [of be "callAi JSON_parse (gateway t)"] obtain msg where
    m: "mergeResults JNull be (callAi JSON_parse (gateway t)) =
     Inr (JObj [
          (''error'', JStr msg),
          (''trustScore'', JNum 0),
          (''claims'', JArr []),
          (''citations'', JArr []),
          (''hallucinationRisk'',
             or_default (opt_prop (Some (callAi JSON_parse (gateway t))) ''hallucinationRisk'') (JStr ''Unknown'')),
          (''hallucinationRiskReason'',
             or_default (opt_prop (Some (callAi JSON_parse (gateway t))) ''hallucinationRiskReason'')
               (JStr ''Backend verification required'')),
          (''analysisSummary'',
             or_default (opt_prop (Some (callAi JSON_parse (gateway t))) ''analysisSummary'')
               (JStr ''Unable to verify without backend'')),
          (''source'', JStr ''ai-only-fallback'')])" by blast
  have "verifyContent JSON_parse method (Inr reqBody) backend LOVABLE_API_KEY gateway
         = Json 200 (JObj [
          (''error'', JStr msg),
          (''trustScore'', JNum 0),
          (''claims'', JArr []),
          (''citations'', JArr []),
          (''hallucinationRisk'',
             or_default (opt_prop (Some (callAi JSON_parse (gateway t))) ''hallucinationRisk'') (JStr ''Unknown'')),
          (''hallucinationRiskReason'',
             or_default (opt_prop (Some (callAi JSON_parse (gateway t))) ''hallucinationRiskReason'')
               (JStr ''Backend verification required'')),
          (''analysisSummary'',
             or_default (opt_prop (Some (callAi JSON_parse (gateway t))) ''analysisSummary'')
               (JStr ''Unable to verify without backend'')),
          (''source'', JStr ''ai-only-fallback'')])"
    using assms(1-5) cb br m by (simp add: verifyContent_def bind_result_def)
  then show ?thesis by simp
qed

text \<open>Two pairs of outcomes: the backend refusing the connection while the gateway
  answers with a high risk, and the backend answering 502 while the gateway is down.\<close>

theorem merge_fallback_on_backend_failure_witness:
  "(\<exists>body msg.
       verifyContent sample_parse ''POST'' (Inr (JObj [(''text'', JStr ''The moon is made of cheese'')]))
          (\<lambda>t. Inl (FetchError ''connection refused'')) (Some ''key'')
          (\<lambda>t. Inr (HttpResponse 200 (Inr sample_insight_reply)))
         = Json 200 body
     \<and> opt_prop (Some body) ''trustScore'' = Some (JNum 0)
     \<and> opt_prop (Some body) ''claims'' = Some (JArr [])
     \<and> opt_prop (Some body) ''citations'' = Some (JArr [])
     \<and> opt_prop (Some body) ''source'' = Some (JStr ''ai-only-fallback'')
     \<and> opt_prop (Some body) ''error'' = Some (JStr msg)
     \<and> opt_prop (Some body) ''hallucinationRisk'' = Some (JStr ''High''))
   \<and> (\<exists>body msg.
       verifyContent sample_parse ''POST'' (Inr (JObj [(''text'', JStr ''The moon is made of cheese'')]))
          (\<lambda>t. Inr (HttpResponse 502 (Inr ''Bad Gateway''))) (Some ''key'')
          (\<lambda>t. Inl (FetchError ''connection refused''))
         = Json 200 body
     \<and> opt_prop (Some body) ''trustScore'' = Some (JNum 0)
     \<and> opt_prop (Some body) ''claims'' = Some (JArr [])
     \<and> opt_prop (Some body) ''citations'' = Some (JArr [])
     \<and> opt_prop (Some body) ''source'' = Some (JStr ''ai-only-fallback'')
     \<and> opt_prop (Some body) ''error'' = Some (JStr msg)
     \<and> opt_prop (Some body) ''hallucinationRisk'' = Some (JStr ''Unknown''))"
proof -
  have m: "''POST'' \<noteq> ''OPTIONS''" by simp
  have g: "get_prop (Some (JObj [(''text'', JStr ''The moon is made of cheese'')])) ''text''
             = Inr (Some (JStr ''The moon is made of cheese''))" by simp
  have t: "''The moon is made of cheese'' \<noteq> []" and k: "''key'' \<noteq> []" by simp_all
  have f1: "(\<exists>e. (\<lambda>t. Inl (FetchError ''connection refused'') :: js_error + http_response)
                    ''The moon is made of cheese'' = Inl e)
         \<or> (\<exists>r. (\<lambda>t. Inl (FetchError ''connection refused''))
                    ''The moon is made of cheese'' = Inr r
                \<and> (\<not> resp_ok r \<or> (\<exists>e. resp_json sample_parse r = Inl e)))" by simp
  have f2: "(\<exists>e. (\<lambda>t. Inr (HttpResponse 502 (Inr ''Bad Gateway'')))
                    ''The moon is made of cheese'' = Inl e)
         \<or> (\<exists>r. (\<lambda>t. Inr (HttpResponse 502 (Inr ''Bad Gateway'')))
                    ''The moon is made of cheese'' = Inr r
                \<and> (\<not> resp_ok r \<or> (\<exists>e. resp_json sample_parse r = Inl e)))"
    by (simp add: resp_ok_def)
  have a1: "callAi sample_parse (Inr (HttpResponse 200 (Inr sample_insight_reply)))
              = JObj [(''hallucinationRisk'', JStr ''High'')]" by code_simp
  have a2: "callAi sample_parse (Inl (FetchError ''connection refused'')) = JNull"
    by (simp add: callAi_def)
  from merge_fallback_on_backend_failure [OF m g t refl k f1,
         of "\<lambda>t. Inr (HttpResponse 200 (Inr sample_insight_reply))"]
  obtain body1 msg1 where b1:
    "verifyContent sample_parse ''POST'' (Inr (JObj [(''text'', JStr ''The moon is made of cheese'')]))
          (\<lambda>t. Inl (FetchError ''connection refused'')) (Some ''key'')
          (\<lambda>t. Inr (HttpResponse 200 (Inr sample_insight_reply)))
         = Json 200 body1"
    "opt_prop (Some body1) ''trustScore'' = Some (JNum 0)"
    "opt_prop (Some body1) ''claims'' = Some (JArr [])"
    "opt_prop (Some body1) ''citations'' = Some (JArr [])"
    "opt_prop (Some body1) ''source'' = Some (JStr ''ai-only-fallback'')"
    "opt_prop (Some body1) ''error'' = Some (JStr msg1)"
    "opt_prop (Some body1) ''hallucinationRisk''
       = Some (or_default
                 (opt_prop (Some (callAi sample_parse
                     (Inr (HttpResponse 200 (Inr sample_insight_reply))))) ''hallucinationRisk'')
                 (JStr ''Unknown''))"
    by blast
  from b1(7) have r1: "opt_prop (Some body1) ''hallucinationRisk'' = Some (JStr ''High'')"
    unfolding a1 by simp
  from merge_fallback_on_backend_failure [OF m g t refl k f2,
         of "\<lambda>t. Inl (FetchError ''connection refused'')"]
  obtain body2 msg2 where b2:
    "verifyContent sample_parse ''POST'' (Inr (JObj [(''text'', JStr ''The moon is made of cheese'')]))
          (\<lambda>t. Inr (HttpResponse 502 (Inr ''Bad Gateway''))) (Some ''key'')
          (\<lambda>t. Inl (FetchError ''connection refused''))
         = Json 200 body2"
    "opt_prop (Some body2) ''trustScore'' = Some (JNum 0)"
    "opt_prop (Some body2) ''claims'' = Some (JArr [])"
    "opt_prop (Some body2) ''citations'' = Some (JArr [])"
    "opt_prop (Some body2) ''source'' = Some (JStr ''ai-only-fallback'')"
    "opt_prop (Some body2) ''error'' = Some (JStr msg2)"
    "opt_prop (Some body2) ''hallucinationRisk''
       = Some (or_default
                 (opt_prop (Some (callAi sample_parse (Inl (FetchError ''connection refused''))))
                    ''hallucinationRisk'')
                 (JStr ''Unknown''))"
    by blast
  from b2(7) have r2: "opt_prop (Some body2) ''hallucinationRisk'' = Some (JStr ''Unknown'')"
    unfolding a2 by simp
  from b1(1-6) r1 have 1: "\<exists>body msg.
       verifyContent sample_parse ''POST'' (Inr (JObj [(''text'', JStr ''The moon is made of cheese'')]))
          (\<lambda>t. Inl (FetchError ''connection refused'')) (Some ''key'')
          (\<lambda>t. Inr (HttpResponse 200 (Inr sample_insight_reply)))
         = Json 200 body
     \<and> opt_prop (Some body) ''trustScore'' = Some (JNum 0)
     \<and> opt_prop (Some body) ''claims'' = Some (JArr [])
     \<and> opt_prop (Some body) ''citations'' = Some (JArr [])
     \<and> opt_prop (Some body) ''source'' = Some (JStr ''ai-only-fallback'')
     \<and> opt_prop (Some body) ''error'' = Some (JStr msg)
     \<and> opt_prop (Some body) ''hallucinationRisk'' = Some (JStr ''High'')"
    by blast
  from b2(1-6) r2 have 2: "\<exists>body msg.
       verifyContent sample_parse ''POST'' (Inr (JObj [(''text'', JStr ''The moon is made of cheese'')]))
          (\<lambda>t. Inr (HttpResponse 502 (Inr ''Bad Gateway''))) (Some ''key'')
          (\<lambda>t. Inl (FetchError ''connection refused''))
         = Json 200 body
     \<and> opt_prop (Some body) ''trustScore'' = Some (JNum 0)
     \<and> opt_prop (Some body) ''claims'' = Some (JArr [])
     \<and> opt_prop (Some body) ''citations'' = Some (JArr [])
     \<and> opt_prop (Some body) ''source'' = Some (JStr ''ai-only-fallback'')
     \<and> opt_prop (Some body) ''error'' = Some (JStr msg)
     \<and> opt_prop (Some body) ''hallucinationRisk'' = Some (JStr ''Unknown'')"
    by blast
  from 1 2 show ?thesis by (rule conjI)
qed

section \<open>Properties of the fence extraction\<close>

lemma split_fence_None: "\<not> js_includes c fence \<Longrightarrow> split_fence c = None"
  by (induction c) (auto simp: fence_def)

lemma length_fence: "length fence = 3"
  by (simp add: fence_def)

lemma startsWith_fence_prefix:
  "startsWith (x # a @ fence @ r) fence \<longleftrightarrow> startsWith ((x # a) @ take 2 fence) fence"
proof -
  have "x # a @ fence @ r = ((x # a) @ take 2 fence) @ (drop 2 fence @ r)"
    using append_take_drop_id [of 2 fence] by (metis append_Cons append_assoc)
  then have "take 3 (x # a @ fence @ r) = take 3 (((x # a) @ take 2 fence) @ (drop 2 fence @ r))"
    by (rule arg_cong)
  also have "\<dots> = take 3 ((x # a) @ take 2 fence)"
    by (simp add: length_fence)
  finally show ?thesis by (simp add: startsWith_def length_fence)
qed

lemma split_fence_first:
  "\<not> js_includes (a @ take 2 fence) fence \<Longrightarrow> split_fence (a @ fence @ r) = Some (a, r)"
proof (induction a)
  case Nil
  then show ?case by (simp add: fence_def startsWith_def)
next
  case (Cons x a)
  from Cons.prems have n1: "\<not> startsWith ((x # a) @ take 2 fence) fence"
    and n2: "\<not> js_includes (a @ take 2 fence) fence" by simp_all
  from n1 have "\<not> startsWith (x # a @ fence @ r) fence"
    using startsWith_fence_prefix [of x a r] by simp
  with Cons.IH [OF n2] show ?case by simp
qed

lemma dropWhile_spaces:
  "\<forall>ch \<in> set ws. isSpace ch \<Longrightarrow> g = [] \<or> \<not> isSpace (hd g) \<Longrightarrow>
     dropWhile isSpace (ws @ g @ fence @ b) = g @ fence @ b"
proof -
  assume ws: "\<forall>ch \<in> set ws. isSpace ch" and g: "g = [] \<or> \<not> isSpace (hd g)"
  have "\<not> isSpace (CHR 0x60)" by code_simp
  moreover have "fence = CHR 0x60 # [CHR 0x60, CHR 0x60]" by (rule fence_def)
  ultimately obtain h t where ht: "fence = h # t" "\<not> isSpace h" by blast
  have "dropWhile isSpace (g @ fence @ b) = g @ fence @ b"
  proof (cases g)
    case Nil
    have "dropWhile isSpace ((h # t) @ b) = (h # t) @ b" using ht(2) by simp
    then show ?thesis unfolding Nil ht(1) by simp
  next
    case (Cons y ys)
    with g show ?thesis by simp
  qed
  with ws show ?thesis by (simp add: dropWhile_append)
qed

lemma fenced_group_unfenced: "\<not> js_includes c fence \<Longrightarrow> fenced_group c = c"
  by (simp add: fenced_group_def split_fence_None)

lemma fenced_group_fenced:
  assumes "\<not> js_includes (a @ take 2 fence) fence"
    and "tag = ''json'' \<or> (tag = [] \<and> \<not> startsWith (ws @ g @ fence @ b) ''json'')"
    and "\<forall>ch \<in> set ws. isSpace ch"
    and "g = [] \<or> \<not> isSpace (hd g)"
    and "\<not> js_includes (g @ take 2 fence) fence"
  shows "fenced_group (a @ fence @ tag @ ws @ g @ fence @ b) = g"
proof -
  have 1: "split_fence (a @ fence @ tag @ ws @ g @ fence @ b) = Some (a, tag @ ws @ g @ fence @ b)"
    using split_fence_first [OF assms(1)] by simp
  have 2: "(if startsWith (tag @ ws @ g @ fence @ b) ''json''
            then drop 4 (tag @ ws @ g @ fence @ b) else tag @ ws @ g @ fence @ b)
             = ws @ g @ fence @ b"
    using assms(2) by (auto simp: startsWith_def)
  have 3: "dropWhile isSpace (ws @ g @ fence @ b) = g @ fence @ b"
    using dropWhile_spaces [OF assms(3,4)] .
  have 4: "split_fence (g @ fence @ b) = Some (g, b)"
    using split_fence_first [OF assms(5)] .
  show ?thesis
    unfolding fenced_group_def 1 by (simp add: Let_def 2 3 4)
qed

lemma fenced_group_example:
  "trim (fenced_group (''Here you go: '' @ fence @ ''json'' @ [CHR 0x0A] @ sample_insight_text
                       @ [CHR 0x0A] @ fence @ '' Anything else?''))
     = sample_insight_text"
  by code_simp

section \<open>Properties of Detect AI\<close>

lemma trim_no_break_space: "trim ([CHR 0xA0] @ ''{}'' @ [CHR 0xA0, CHR 0x0A]) = ''{}''"
  by code_simp

lemma detectAi_string_content:
  assumes "req_method \<noteq> ''OPTIONS''"
    and "get_prop (Some reqBody) ''text'' = Inr (Some (JStr t))" and "t \<noteq> []"
    and "LOVABLE_API_KEY = Some key" and "key \<noteq> []"
    and "gateway (substring0 4000 t) = Inr r" and "resp_ok r"
    and "resp_json JSON_parse r = Inr data"
    and "aiContent data = Inr (Some (JStr c))" and "c \<noteq> []"
  shows "detectAi JSON_parse req_method (Inr reqBody) LOVABLE_API_KEY gateway
           = Json 200 (case JSON_parse (trim (fenced_group c)) of
                         Inl parseError \<Rightarrow> defaultDetection
                       | Inr result \<Rightarrow> result)"
  using assms
  by (cases "JSON_parse (trim (fenced_group c))")
     (simp_all add: detectAi_def bind_result_def parse_ai_content_def)

text \<open>
  Claim C9, as amended. In Detect AI, when the content of the gateway's reply, after the
  optional code fence is stripped and white space is trimmed at both ends, is not valid
  JSON, the failure is caught and the request is answered 200 with the default payload:
  \<open>isAiGenerated = false\<close>, \<open>confidence = 50\<close>, \<open>indicators = []\<close>,
  \<open>analysis = "Unable to determine AI authorship"\<close>; when it is valid JSON the reply is
  the parsed value. The stripping is spelled out for a content without a fence, which is
  taken whole, and for a content with a first fence, an optional \<^verbatim>\<open>json\<close> tag, white
  space and a text up to the next fence, of which that text is taken.
\<close>

theorem detectAi_parse_fallback:
  assumes "req_method \<noteq> ''OPTIONS''"
    and "get_prop (Some reqBody) ''text'' = Inr (Some (JStr t))" and "t \<noteq> []"
    and "LOVABLE_API_KEY = Some key" and "key \<noteq> []"
    and "gateway (substring0 4000 t) = Inr r" and "resp_ok r"
    and "resp_json JSON_parse r = Inr data"
    and "aiContent data = Inr (Some (JStr c))" and "c \<noteq> []"
  shows "(JSON_parse (trim (fenced_group c)) = Inl e
          \<longrightarrow> detectAi JSON_parse req_method (Inr reqBody) LOVABLE_API_KEY gateway
               = Json 200 (JObj [(''isAiGenerated'', JBool False),
                                 (''confidence'', JNum 50),
                                 (''indicators'', JArr []),
                                 (''analysis'', JStr ''Unable to determine AI authorship''),
                                 (''error'', JStr ''Failed to parse AI analysis'')]))
     \<and> (JSON_parse (trim (fenced_group c)) = Inr j
          \<longrightarrow> detectAi JSON_parse req_method (Inr reqBody) LOVABLE_API_KEY gateway = Json 200 j)
     \<and> (\<not> js_includes c fence \<and> JSON_parse (trim c) = Inl e
          \<longrightarrow> detectAi JSON_parse req_method (Inr reqBody) LOVABLE_API_KEY gateway
               = Json 200 (JObj [(''isAiGenerated'', JBool False),
                                 (''confidence'', JNum 50),
                                 (''indicators'', JArr []),
                                 (''analysis'', JStr ''Unable to determine AI authorship''),
                                 (''error'', JStr ''Failed to parse AI analysis'')]))
     \<and> (c = a @ fence @ tag @ ws @ g @ fence @ b
          \<and> \<not> js_includes (a @ take 2 fence) fence
          \<and> (tag = ''json'' \<or> (tag = [] \<and> \<not> startsWith (ws @ g @ fence @ b) ''json''))
          \<and> (\<forall>ch \<in> set ws. isSpace ch)
          \<and> (g = [] \<or> \<not> isSpace (hd g))
          \<and> \<not> js_includes (g @ take 2 fence) fence
          \<and> JSON_parse (trim g) = Inl e
          \<longrightarrow> detectAi JSON_parse req_method (Inr reqBody) LOVABLE_API_KEY gateway
               = Json 200 (JObj [(''isAiGenerated'', JBool False),
                                 (''confidence'', JNum 50),
                                 (''indicators'', JArr []),
                                 (''analysis'', JStr ''Unable to determine AI authorship''),
                                 (''error'', JStr ''Failed to parse AI analysis'')]))"
proof -
  have R: "detectAi JSON_parse req_method (Inr reqBody) LOVABLE_API_KEY gateway
           = Json 200 (case JSON_parse (trim (fenced_group c)) of
                         Inl parseError \<Rightarrow> defaultDetection
                       | Inr result \<Rightarrow> result)"
    using assms by (rule detectAi_string_content)
  have 1: "JSON_parse (trim (fenced_group c)) = Inl e
          \<longrightarrow> detectAi JSON_parse req_method (Inr reqBody) LOVABLE_API_KEY gateway
               = Json 200 (JObj [(''isAiGenerated'', JBool False),
                                 (''confidence'', JNum 50),
                                 (''indicators'', JArr []),
                                 (''analysis'', JStr ''Unable to determine AI authorship''),
                                 (''error'', JStr ''Failed to parse AI analysis'')])"
    unfolding R by (simp add: defaultDetection_def)
  have 2: "JSON_parse (trim (fenced_group c)) = Inr j
          \<longrightarrow> detectAi JSON_parse req_method (Inr reqBody) LOVABLE_API_KEY gateway = Json 200 j"
    unfolding R by simp
  have 3: "\<not> js_includes c fence \<and> JSON_parse (trim c) = Inl e
          \<longrightarrow> detectAi JSON_parse req_method (Inr reqBody) LOVABLE_API_KEY gateway
               = Json 200 (JObj [(''isAiGenerated'', JBool False),
                                 (''confidence'', JNum 50),
                                 (''indicators'', JArr []),
                                 (''analysis'', JStr ''Unable to determine AI authorship''),
                                 (''error'', JStr ''Failed to parse AI analysis'')])"
    using 1 by (simp add: fenced_group_unfenced)
  have 4: "c = a @ fence @ tag @ ws @ g @ fence @ b
          \<and> \<not> js_includes (a @ take 2 fence) fence
          \<and> (tag = ''json'' \<or> (tag = [] \<and> \<not> startsWith (ws @ g @ fence @ b) ''json''))
          \<and> (\<forall>ch \<in> set ws. isSpace ch)
          \<and> (g = [] \<or> \<not> isSpace (hd g))
          \<and> \<not> js_includes (g @ take 2 fence) fence
          \<and> JSON_parse (trim g) = Inl e
          \<longrightarrow> detectAi JSON_parse req_method (Inr reqBody) LOVABLE_API_KEY gateway
               = Json 200 (JObj [(''isAiGenerated'', JBool False),
                                 (''confidence'', JNum 50),
                                 (''indicators'', JArr []),
                                 (''analysis'', JStr ''Unable to determine AI authorship''),
                                 (''error'', JStr ''Failed to parse AI analysis'')])"
  proof
    assume h: "c = a @ fence @ tag @ ws @ g @ fence @ b
          \<and> \<not> js_includes (a @ take 2 fence) fence
          \<and> (tag = ''json'' \<or> (tag = [] \<and> \<not> startsWith (ws @ g @ fence @ b) ''json''))
          \<and> (\<forall>ch \<in> set ws. isSpace ch)
          \<and> (g = [] \<or> \<not> isSpace (hd g))
          \<and> \<not> js_includes (g @ take 2 fence) fence
          \<and> JSON_parse (trim g) = Inl e"
    then have "fenced_group (a @ fence @ tag @ ws @ g @ fence @ b) = g"
      by (intro fenced_group_fenced) simp_all
    with h have "JSON_parse (trim (fenced_group c)) = Inl e" by simp
    with 1 show "detectAi JSON_parse req_method (Inr reqBody) LOVABLE_API_KEY gateway
               = Json 200 (JObj [(''isAiGenerated'', JBool False),
                                 (''confidence'', JNum 50),
                                 (''indicators'', JArr []),
                                 (''analysis'', JStr ''Unable to determine AI authorship''),
                                 (''error'', JStr ''Failed to parse AI analysis'')])" by simp
  qed
  show ?thesis by (intro conjI 1 2 3 4)
qed

text \<open>A gateway that answers in prose, one that fences a text that is not JSON, and one
  that fences an empty object.\<close>

theorem detectAi_parse_fallback_witness:
  "detectAi sample_parse ''POST'' (Inr (JObj [(''text'', JStr ''Some essay'')])) (Some ''key'')
      (\<lambda>t. Inr (HttpResponse 200 (Inr sample_prose_reply)))
     = Json 200 (JObj [(''isAiGenerated'', JBool False),
                       (''confidence'', JNum 50),
                       (''indicators'', JArr []),
                       (''analysis'', JStr ''Unable to determine AI authorship''),
                       (''error'', JStr ''Failed to parse AI analysis'')])
   \<and> detectAi sample_parse ''POST'' (Inr (JObj [(''text'', JStr ''Some essay'')])) (Some ''key'')
      (\<lambda>t. Inr (HttpResponse 200 (Inr sample_unparsable_reply)))
     = Json 200 (JObj [(''isAiGenerated'', JBool False),
                       (''confidence'', JNum 50),
                       (''indicators'', JArr []),
                       (''analysis'', JStr ''Unable to determine AI authorship''),
                       (''error'', JStr ''Failed to parse AI analysis'')])
   \<and> detectAi sample_parse ''POST'' (Inr (JObj [(''text'', JStr ''Some essay'')])) (Some ''key'')
      (\<lambda>t. Inr (HttpResponse 200 (Inr sample_fenced_reply)))
     = Json 200 (JObj [])"
proof -
  let ?req = "JObj [(''text'', JStr ''Some essay'')]"
  let ?prose = "''I think a human wrote it''"
  let ?err = "SyntaxError ''Unexpected token''"
  have m: "''POST'' \<noteq> ''OPTIONS''" by simp
  have tx: "get_prop (Some ?req) ''text'' = Inr (Some (JStr ''Some essay''))" by simp
  have t: "''Some essay'' \<noteq> []" and k: "''key'' \<noteq> []" by simp_all
  have ok: "resp_ok (HttpResponse 200 (Inr body))" for body by (simp add: resp_ok_def)
  have ac: "aiContent (content_reply c) = Inr (Some (JStr c))" for c
    by (simp add: aiContent_def content_reply_def bind_result_def)

  have j1: "resp_json sample_parse (HttpResponse 200 (Inr sample_prose_reply))
              = Inr (content_reply ?prose)"
    unfolding content_reply_def by code_simp
  have c1: "?prose \<noteq> []" by simp
  have n1: "\<not> js_includes ?prose fence" by code_simp
  have p1: "sample_parse (trim ?prose) = Inl ?err" by code_simp
  have gw1: "(\<lambda>t. Inr (HttpResponse 200 (Inr sample_prose_reply)) :: js_error + http_response)
               (substring0 4000 ''Some essay'') = Inr (HttpResponse 200 (Inr sample_prose_reply))"
    by simp
  note T1 = detectAi_parse_fallback [where req_method = "''POST''" and reqBody = ?req
      and t = "''Some essay''" and LOVABLE_API_KEY = "Some ''key''" and key = "''key''"
      and gateway = "\<lambda>t. Inr (HttpResponse 200 (Inr sample_prose_reply))"
      and r = "HttpResponse 200 (Inr sample_prose_reply)" and JSON_parse = sample_parse
      and data = "content_reply ?prose" and c = ?prose and e = ?err and j = JNull
      and a = "[]" and tag = "[]" and ws = "[]" and g = "[]" and b = "[]",
      OF m tx t refl k gw1 ok j1 ac c1]
  from T1 [THEN conjunct2, THEN conjunct2, THEN conjunct1] n1 p1
  have r1: "detectAi sample_parse ''POST'' (Inr ?req) (Some ''key'')
      (\<lambda>t. Inr (HttpResponse 200 (Inr sample_prose_reply)))
     = Json 200 (JObj [(''isAiGenerated'', JBool False),
                       (''confidence'', JNum 50),
                       (''indicators'', JArr []),
                       (''analysis'', JStr ''Unable to determine AI authorship''),
                       (''error'', JStr ''Failed to parse AI analysis'')])"
    by simp

  let ?g = "''{oops'' @ [CHR 0x0A]"
  have j2: "resp_json sample_parse (HttpResponse 200 (Inr sample_unparsable_reply))
              = Inr (content_reply sample_unparsable_content)"
    by code_simp
  have c2: "sample_unparsable_content \<noteq> []" by (simp add: sample_unparsable_content_def)
  have sh: "sample_unparsable_content = ''Sure: '' @ fence @ ''json'' @ [CHR 0x0A] @ ?g @ fence @ []"
    by (simp add: sample_unparsable_content_def)
  have na: "\<not> js_includes (''Sure: '' @ take 2 fence) fence" by code_simp
  have ws: "\<forall>ch \<in> set [CHR 0x0A]. isSpace ch" by code_simp
  have hg: "?g = [] \<or> \<not> isSpace (hd ?g)" by code_simp
  have ng: "\<not> js_includes (?g @ take 2 fence) fence" by code_simp
  have p2: "sample_parse (trim ?g) = Inl ?err" by code_simp
  have gw2: "(\<lambda>t. Inr (HttpResponse 200 (Inr sample_unparsable_reply)) :: js_error + http_response)
               (substring0 4000 ''Some essay'')
               = Inr (HttpResponse 200 (Inr sample_unparsable_reply))"
    by simp
  note T2 = detectAi_parse_fallback [where req_method = "''POST''" and reqBody = ?req
      and t = "''Some essay''" and LOVABLE_API_KEY = "Some ''key''" and key = "''key''"
      and gateway = "\<lambda>t. Inr (HttpResponse 200 (Inr sample_unparsable_reply))"
      and r = "HttpResponse 200 (Inr sample_unparsable_reply)" and JSON_parse = sample_parse
      and data = "content_reply sample_unparsable_content" and c = sample_unparsable_content
      and e = ?err and j = JNull
      and a = "''Sure: ''" and tag = "''json''" and ws = "[CHR 0x0A]" and g = ?g and b = "[]",
      OF m tx t refl k gw2 ok j2 ac c2]
  from T2 [THEN conjunct2, THEN conjunct2, THEN conjunct2] sh na ws hg ng p2
  have r2: "detectAi sample_parse ''POST'' (Inr ?req) (Some ''key'')
      (\<lambda>t. Inr (HttpResponse 200 (Inr sample_unparsable_reply)))
     = Json 200 (JObj [(''isAiGenerated'', JBool False),
                       (''confidence'', JNum 50),
                       (''indicators'', JArr []),
                       (''analysis'', JStr ''Unable to determine AI authorship''),
                       (''error'', JStr ''Failed to parse AI analysis'')])"
    by blast

  have j3: "resp_json sample_parse (HttpResponse 200 (Inr sample_fenced_reply))
              = Inr (content_reply sample_fenced_content)"
    by code_simp
  have c3: "sample_fenced_content \<noteq> []" by (simp add: sample_fenced_content_def fence_def)
  have p3: "sample_parse (trim (fenced_group sample_fenced_content)) = Inr (JObj [])"
    by code_simp
  have gw3: "(\<lambda>t. Inr (HttpResponse 200 (Inr sample_fenced_reply)) :: js_error + http_response)
               (substring0 4000 ''Some essay'')
               = Inr (HttpResponse 200 (Inr sample_fenced_reply))"
    by simp
  note T3 = detectAi_parse_fallback [where req_method = "''POST''" and reqBody = ?req
      and t = "''Some essay''" and LOVABLE_API_KEY = "Some ''key''" and key = "''key''"
      and gateway = "\<lambda>t. Inr (HttpResponse 200 (Inr sample_fenced_reply))"
      and r = "HttpResponse 200 (Inr sample_fenced_reply)" and JSON_parse = sample_parse
      and data = "content_reply sample_fenced_content" and c = sample_fenced_content
      and e = ?err and j = "JObj []"
      and a = "[]" and tag = "[]" and ws = "[]" and g = "[]" and b = "[]",
      OF m tx t refl k gw3 ok j3 ac c3]
  from T3 [THEN conjunct2, THEN conjunct1] p3
  have r3: "detectAi sample_parse ''POST'' (Inr ?req) (Some ''key'')
      (\<lambda>t. Inr (HttpResponse 200 (Inr sample_fenced_reply)))
     = Json 200 (JObj [])"
    by simp
  show ?thesis by (intro conjI r1 r2 r3)
qed

text \<open>
  Claim C9 as stated fails on a content that is an empty object after a vertical tab: it
  is not valid JSON, with or without the fence stripping, yet the trimmed text is, and
  the reply is the parsed object, not the default payload.
\<close>

theorem detectAi_parse_fallback_counterexample:
  "sample_parse sample_vt_content = Inl (SyntaxError ''Unexpected token'')
   \<and> sample_parse (fenced_group sample_vt_content) = Inl (SyntaxError ''Unexpected token'')
   \<and> detectAi sample_parse ''POST'' (Inr (JObj [(''text'', JStr ''Some essay'')])) (Some ''key'')
        (\<lambda>t. Inr (HttpResponse 200 (Inr sample_vt_reply)))
       = Json 200 (JObj [])"
proof (intro conjI)
  show "sample_parse sample_vt_content = Inl (SyntaxError ''Unexpected token'')" by code_simp
  show "sample_parse (fenced_group sample_vt_content) = Inl (SyntaxError ''Unexpected token'')"
    by code_simp
  show "detectAi sample_parse ''POST'' (Inr (JObj [(''text'', JStr ''Some essay'')])) (Some ''key'')
        (\<lambda>t. Inr (HttpResponse 200 (Inr sample_vt_reply)))
       = Json 200 (JObj [])" by code_simp
qed

section \<open>Properties of the source-suggestion matching\<close>

lemma get_prop_opt_prop: "claim \<noteq> JNull \<Longrightarrow> get_prop (Some claim) k = Inr (opt_prop (Some claim) k)"
  by (cases claim) simp_all

lemma or_prop_js_or:
  "claim \<noteq> JNull \<Longrightarrow> or_prop a (Some claim) k = Inr (js_or a (opt_prop (Some claim) k))"
  by (simp add: or_prop_def js_or_def get_prop_opt_prop)


lemma findSuggestion_Some:
  "findSuggestion claim ss = Inr (Some s) \<Longrightarrow> s \<in> set ss \<and> suggestionMatches claim s = Inr True"
proof (induction ss)
  case Nil
  then show ?case by simp
next
  case (Cons a ss)
  then show ?case
    by (auto simp: bind_result_def split: sum.splits if_splits)
qed

lemma aiSuggestionFor_Some:
  "aiSuggestionFor aiResult claim = Inr (Some s) \<Longrightarrow>
     \<exists>ss. opt_prop (Some aiResult) ''sourceSuggestions'' = Some (JArr ss)
          \<and> findSuggestion claim ss = Inr (Some s)"
  by (auto simp: aiSuggestionFor_def Let_def split: if_splits option.splits json.splits)

lemma mergeClaim_suggestedSources:
  assumes "mergeClaim aiResult claim = Inr out"
  shows "\<exists>sug. aiSuggestionFor aiResult claim = Inr sug
      \<and> opt_prop (Some out) ''suggestedSources''
          = Some (or_default (js_or (opt_prop sug ''suggestedSources'')
                                    (opt_prop (Some claim) ''suggestedSources''))
                             (JArr []))"
proof -
  from assms obtain sug where sug: "aiSuggestionFor aiResult claim = Inr sug"
    by (cases "aiSuggestionFor aiResult claim") (simp_all add: mergeClaim_def bind_result_def)
  from assms sug have nn: "claim \<noteq> JNull"
    by (cases claim) (simp_all add: mergeClaim_def bind_result_def)
  from assms have "\<exists>st.
     out = JObj [(''text'', or_default (js_or (opt_prop (Some claim) ''text'')
                                             (opt_prop (Some claim) ''claim'')) (JStr [])),
                 (''status'', JStr (claim_status_str st)),
                 (''note'', or_default (js_or (js_or (opt_prop (Some claim) ''note'')
                                                     (opt_prop (Some claim) ''explanation''))
                                              (opt_prop (Some claim) ''reason'')) (JStr [])),
                 (''suggestedSources'',
                    or_default (js_or (opt_prop sug ''suggestedSources'')
                                      (opt_prop (Some claim) ''suggestedSources'')) (JArr []))]"
    unfolding mergeClaim_def sug
    by (cases "normalizeClaimStatus (js_or (js_or (opt_prop (Some claim) ''status'')
                  (opt_prop (Some claim) ''verdict''))
                  (opt_prop (Some claim) ''verification_status''))")
       (auto simp: bind_result_def or_prop_js_or [OF nn] get_prop_opt_prop [OF nn])
  then have "opt_prop (Some out) ''suggestedSources''
          = Some (or_default (js_or (opt_prop sug ''suggestedSources'')
                                    (opt_prop (Some claim) ''suggestedSources''))
                             (JArr []))" by auto
  with sug show ?thesis by blast
qed

lemma suggestionMatches_text_only:
  "get_prop (Some c) ''text'' = get_prop (Some c') ''text'' \<Longrightarrow>
     suggestionMatches c s = suggestionMatches c' s"
  by (simp add: suggestionMatches_def)

lemma findSuggestion_text_only:
  "get_prop (Some c) ''text'' = get_prop (Some c') ''text'' \<Longrightarrow>
     findSuggestion c ss = findSuggestion c' ss"
proof (induction ss)
  case Nil
  then show ?case by simp
next
  case (Cons s ss)
  from Cons.prems have m: "suggestionMatches c s = suggestionMatches c' s"
    by (rule suggestionMatches_text_only)
  from Cons.IH [OF Cons.prems] have r: "findSuggestion c ss = findSuggestion c' ss" .
  show ?case unfolding findSuggestion.simps m r ..
qed

lemma aiSuggestionFor_text_only:
  "get_prop (Some c) ''text'' = get_prop (Some c') ''text'' \<Longrightarrow>
     aiSuggestionFor aiResult c = aiSuggestionFor aiResult c'"
  by (simp add: aiSuggestionFor_def Let_def findSuggestion_text_only [of c c']
           split: option.splits json.splits)

lemma or_default_not_default:
  "or_default v d \<noteq> d \<Longrightarrow> truthy v \<and> v = Some (or_default v d)"
  by (cases v) (auto split: if_splits)


text \<open>
  Claim C3, as amended. In a merged result a claim's \<open>suggestedSources\<close> differs from
  the empty list only when an entry of the AI result's \<open>sourceSuggestions\<close> matches the
  claim and carries the value, or the backend's claim itself carries it. The claim's
  status is not consulted: two backend claims that differ in their status fields only
  get the same \<open>suggestedSources\<close>. (The list is filtered by status where it is
  displayed, not where it is merged.)
\<close>

theorem suggestedSources_origin:
  "(mergeClaim aiResult claim = Inr out
      \<and> opt_prop (Some out) ''suggestedSources'' \<noteq> Some (JArr [])
    \<longrightarrow> (\<exists>ss s. opt_prop (Some aiResult) ''sourceSuggestions'' = Some (JArr ss)
              \<and> s \<in> set ss \<and> suggestionMatches claim s = Inr True
              \<and> truthy (opt_prop (Some s) ''suggestedSources'')
              \<and> opt_prop (Some out) ''suggestedSources'' = opt_prop (Some s) ''suggestedSources'')
        \<or> (truthy (opt_prop (Some claim) ''suggestedSources'')
            \<and> opt_prop (Some out) ''suggestedSources''
                = opt_prop (Some claim) ''suggestedSources''))
   \<and> (mergeClaim aiResult (JObj kvs) = Inr out1 \<and> mergeClaim aiResult (JObj kvs') = Inr out2
      \<and> (\<forall>k. k \<notin> {''status'', ''verdict'', ''verification_status''}
               \<longrightarrow> map_of kvs k = map_of kvs' k)
    \<longrightarrow> opt_prop (Some out1) ''suggestedSources'' = opt_prop (Some out2) ''suggestedSources'')"
proof (intro conjI impI)
  assume h: "mergeClaim aiResult claim = Inr out
      \<and> opt_prop (Some out) ''suggestedSources'' \<noteq> Some (JArr [])"
  let ?own = "opt_prop (Some claim) ''suggestedSources''"
  from h mergeClaim_suggestedSources obtain sug where
    sug: "aiSuggestionFor aiResult claim = Inr sug"
    and o: "opt_prop (Some out) ''suggestedSources''
          = Some (or_default (js_or (opt_prop sug ''suggestedSources'') ?own) (JArr []))"
    by blast
  from h o have "or_default (js_or (opt_prop sug ''suggestedSources'') ?own) (JArr []) \<noteq> JArr []"
    by simp
  from or_default_not_default [OF this] o
  have tr: "truthy (js_or (opt_prop sug ''suggestedSources'') ?own)"
    and eq: "opt_prop (Some out) ''suggestedSources'' = js_or (opt_prop sug ''suggestedSources'') ?own"
    by simp_all
  show "(\<exists>ss s. opt_prop (Some aiResult) ''sourceSuggestions'' = Some (JArr ss)
              \<and> s \<in> set ss \<and> suggestionMatches claim s = Inr True
              \<and> truthy (opt_prop (Some s) ''suggestedSources'')
              \<and> opt_prop (Some out) ''suggestedSources'' = opt_prop (Some s) ''suggestedSources'')
        \<or> (truthy ?own \<and> opt_prop (Some out) ''suggestedSources'' = ?own)"
  proof (cases "truthy (opt_prop sug ''suggestedSources'')")
    case False
    with tr eq show ?thesis by (simp add: js_or_def)
  next
    case True
    then obtain s where s: "sug = Some s" by (cases sug) auto
    from aiSuggestionFor_Some [OF sug [unfolded s]] obtain ss where
      ss: "opt_prop (Some aiResult) ''sourceSuggestions'' = Some (JArr ss)"
          "findSuggestion claim ss = Inr (Some s)" by blast
    from findSuggestion_Some [OF ss(2)] have m: "s \<in> set ss" "suggestionMatches claim s = Inr True"
      by simp_all
    from True eq s have "opt_prop (Some out) ''suggestedSources'' = opt_prop (Some s) ''suggestedSources''"
      by (simp add: js_or_def)
    with ss(1) m True s show ?thesis by blast
  qed
next
  assume h: "mergeClaim aiResult (JObj kvs) = Inr out1 \<and> mergeClaim aiResult (JObj kvs') = Inr out2
      \<and> (\<forall>k. k \<notin> {''status'', ''verdict'', ''verification_status''}
               \<longrightarrow> map_of kvs k = map_of kvs' k)"
  then have t: "map_of kvs ''text'' = map_of kvs' ''text''"
    and ow: "map_of kvs ''suggestedSources'' = map_of kvs' ''suggestedSources''" by simp_all
  from t have "get_prop (Some (JObj kvs)) ''text'' = get_prop (Some (JObj kvs')) ''text''" by simp
  from aiSuggestionFor_text_only [OF this]
  have same: "aiSuggestionFor aiResult (JObj kvs) = aiSuggestionFor aiResult (JObj kvs')" .
  from h mergeClaim_suggestedSources [of aiResult "JObj kvs" out1] obtain sug1 where
    1: "aiSuggestionFor aiResult (JObj kvs) = Inr sug1"
       "opt_prop (Some out1) ''suggestedSources''
          = Some (or_default (js_or (opt_prop sug1 ''suggestedSources'')
                                    (opt_prop (Some (JObj kvs)) ''suggestedSources'')) (JArr []))"
    by blast
  from h mergeClaim_suggestedSources [of aiResult "JObj kvs'" out2] obtain sug2 where
    2: "aiSuggestionFor aiResult (JObj kvs') = Inr sug2"
       "opt_prop (Some out2) ''suggestedSources''
          = Some (or_default (js_or (opt_prop sug2 ''suggestedSources'')
                                    (opt_prop (Some (JObj kvs')) ''suggestedSources'')) (JArr []))"
    by blast
  from 1(1) 2(1) same have "sug1 = sug2" by simp
  with 1(2) 2(2) ow show "opt_prop (Some out1) ''suggestedSources'' = opt_prop (Some out2) ''suggestedSources''"
    by simp
qed

text \<open>The sample claim, and the same claim with a status that normalizes to \<open>false\<close>.\<close>

theorem suggestedSources_origin_witness:
  "mergeClaim sample_aiResult (JObj sample_claim)
     = Inr (JObj [(''text'', JStr ''Water boils at 100 C''),
                  (''status'', JStr ''verified''),
                  (''note'', JStr []),
                  (''suggestedSources'', JArr [JStr ''https://www.nist.gov''])])
   \<and> ((\<exists>ss s. opt_prop (Some sample_aiResult) ''sourceSuggestions'' = Some (JArr ss)
              \<and> s \<in> set ss \<and> suggestionMatches (JObj sample_claim) s = Inr True
              \<and> truthy (opt_prop (Some s) ''suggestedSources'')
              \<and> Some (JArr [JStr ''https://www.nist.gov'']) = opt_prop (Some s) ''suggestedSources'')
        \<or> (truthy (opt_prop (Some (JObj sample_claim)) ''suggestedSources'')
            \<and> Some (JArr [JStr ''https://www.nist.gov''])
                = opt_prop (Some (JObj sample_claim)) ''suggestedSources''))
   \<and> mergeClaim sample_aiResult
        (JObj [(''text'', JStr ''Water boils at 100 C''), (''status'', JStr ''false'')])
     = Inr (JObj [(''text'', JStr ''Water boils at 100 C''),
                  (''status'', JStr ''false''),
                  (''note'', JStr []),
                  (''suggestedSources'', JArr [JStr ''https://www.nist.gov''])])"
proof -
  let ?out1 = "JObj [(''text'', JStr ''Water boils at 100 C''),
                  (''status'', JStr ''verified''),
                  (''note'', JStr []),
                  (''suggestedSources'', JArr [JStr ''https://www.nist.gov''])]"
  let ?kvs2 = "[(''text'', JStr ''Water boils at 100 C''), (''status'', JStr ''false'')]"
  let ?out2 = "JObj [(''text'', JStr ''Water boils at 100 C''),
                  (''status'', JStr ''false''),
                  (''note'', JStr []),
                  (''suggestedSources'', JArr [JStr ''https://www.nist.gov''])]"
  have m1: "mergeClaim sample_aiResult (JObj sample_claim) = Inr ?out1" by code_simp
  have m2: "mergeClaim sample_aiResult (JObj ?kvs2) = Inr ?out2" by code_simp
  have ne: "opt_prop (Some ?out1) ''suggestedSources'' \<noteq> Some (JArr [])" by simp
  have f: "opt_prop (Some ?out1) ''suggestedSources'' = Some (JArr [JStr ''https://www.nist.gov''])"
    by simp
  note T = suggestedSources_origin [of sample_aiResult "JObj sample_claim" ?out1
             sample_claim ?out1 ?kvs2 ?out2]
  from T [THEN conjunct1] m1 ne
  have "(\<exists>ss s. opt_prop (Some sample_aiResult) ''sourceSuggestions'' = Some (JArr ss)
              \<and> s \<in> set ss \<and> suggestionMatches (JObj sample_claim) s = Inr True
              \<and> truthy (opt_prop (Some s) ''suggestedSources'')
              \<and> opt_prop (Some ?out1) ''suggestedSources'' = opt_prop (Some s) ''suggestedSources'')
        \<or> (truthy (opt_prop (Some (JObj sample_claim)) ''suggestedSources'')
            \<and> opt_prop (Some ?out1) ''suggestedSources''
                = opt_prop (Some (JObj sample_claim)) ''suggestedSources'')"
    by blast
  then have d: "(\<exists>ss s. opt_prop (Some sample_aiResult) ''sourceSuggestions'' = Some (JArr ss)
              \<and> s \<in> set ss \<and> suggestionMatches (JObj sample_claim) s = Inr True
              \<and> truthy (opt_prop (Some s) ''suggestedSources'')
              \<and> Some (JArr [JStr ''https://www.nist.gov'']) = opt_prop (Some s) ''suggestedSources'')
        \<or> (truthy (opt_prop (Some (JObj sample_claim)) ''suggestedSources'')
            \<and> Some (JArr [JStr ''https://www.nist.gov''])
                = opt_prop (Some (JObj sample_claim)) ''suggestedSources'')"
    unfolding f .
  have k: "\<forall>k. k \<notin> {''status'', ''verdict'', ''verification_status''}
               \<longrightarrow> map_of sample_claim k = map_of ?kvs2 k"
    by (simp add: sample_claim_def)
  from T [THEN conjunct2] m1 m2 k
  have e: "opt_prop (Some ?out1) ''suggestedSources'' = opt_prop (Some ?out2) ''suggestedSources''"
    by blast
  from m1 d m2 show ?thesis by (intro conjI)
qed

text \<open>
  Claim C3 as stated fails: the sample backend claim is normalized to \<open>verified\<close> and
  keeps the source the AI result suggests for it.
\<close>

theorem suggestedSources_origin_counterexample:
  "mergeResults sample_backendResult None sample_aiResult
     = Inr (JObj [(''trustScore'', JNum 82),
                  (''claims'',
                     JArr [JObj [(''text'', JStr ''Water boils at 100 C''),
                                 (''status'', JStr ''verified''),
                                 (''note'', JStr []),
                                 (''suggestedSources'', JArr [JStr ''https://www.nist.gov''])]]),
                  (''citations'', JArr []),
                  (''hallucinationRisk'', JStr ''Low''),
                  (''hallucinationRiskReason'', JStr ''Unable to assess''),
                  (''analysisSummary'', JStr []),
                  (''source'', JStr ''backend+ai'')])"
  by code_simp







end
